theory Spec2Isabelle
  imports
    Complex_Main
    "HOL-Library.Char_ord"
    "HOL-Library.List_Lexorder"
    "HOL-Library.DAList"
begin

section \<open>The pcbnew board parser of InteractiveHtmlBom (ecad/kicad.py)\<close>

text \<open>
  The development embeds \<^verbatim>\<open>PcbnewParser\<close> of \<^verbatim>\<open>InteractiveHtmlBom/ecad/kicad.py\<close>.
  Conventions of the embedding:
  \<^item> pcbnew's integer coordinates (nanometres) are \<open>int\<close>; Python floats are exact
    rationals, so \<^verbatim>\<open>x * 1e-6\<close> is \<open>x / 1000000\<close> and \<^verbatim>\<open>round(x, 2)\<close> rounds
    half to even at the second decimal;
  \<^item> Python strings are \<open>string\<close>, ordered lexicographically by character code, as
    Python compares them;
  \<^item> a method that \<^verbatim>\<open>hasattr\<close> may find missing is an \<open>option\<close>-valued field;
  \<^item> the logger, the font parser and the footprint objects of the board live in an
    explicit state that every operation passes on;
  \<^item> functions of pcbnew, of the Python library and of other modules of the plugin
    that the parser calls are parameters, collected in the record \<open>env\<close>.
\<close>

subsection \<open>Board data as pcbnew presents it\<close>

datatype layer = F_Cu | B_Cu | Edge_Cuts | F_SilkS | B_SilkS | F_Fab | B_Fab | Layer nat

type_synonym wxPoint = "int \<times> int"

text \<open>A Python list \<^verbatim>\<open>[x, y]\<close> of two floats.\<close>
type_synonym vec2 = "rat \<times> rat"

text \<open>
  An outline of a polygon set. \<open>PointCount\<close> is \<open>None\<close> on a host whose outline
  objects have no such method; \<open>CPoint\<close> is indexed below the point count.
\<close>
record outline =
  PointCount :: "nat option"
  CPoint :: "nat \<Rightarrow> wxPoint"

record polygon_set =
  OutlineCount :: nat
  Outline :: "nat \<Rightarrow> outline"
  HasHoles :: bool
  IsSelfIntersecting :: bool

datatype shape_t = S_SEGMENT | S_CIRCLE | S_ARC | S_POLYGON | S_CURVE | S_RECT | S_OTHER nat

text \<open>
  A graphical shape (\<^verbatim>\<open>DRAWSEGMENT\<close>, \<^verbatim>\<open>MGRAPHIC\<close>, \<^verbatim>\<open>PCB_SHAPE\<close>). The parent
  footprint is a reference into the footprint store.
\<close>
record pcb_shape =
  GetShape :: shape_t
  GetStart :: wxPoint
  GetEnd :: wxPoint
  GetWidth :: int
  GetRadius :: int
  GetArcAngleStart :: rat
  GetAngle :: rat
  GetPolyShape :: "polygon_set option"
  GetParentFootprint :: "nat option"
  GetBezControl1 :: wxPoint
  GetBezControl2 :: wxPoint

text \<open>
  A text item (\<^verbatim>\<open>PTEXT\<close>, \<^verbatim>\<open>MTEXT\<close>). \<open>TransformToSegmentList\<close> is the list of
  stroke segments, each a pair of end points (pcbnew returns them flattened, two
  points per segment). The thickness, size and angle getters were renamed between
  host versions; the fields hold the value of whichever the host has.
\<close>
record pcb_text =
  text_GetPosition :: wxPoint
  IsVisible :: bool
  GetTextThickness :: int
  TransformToSegmentList :: "(wxPoint \<times> wxPoint) list option"
  GetDrawRotation :: rat
  GetTextAngle :: rat
  GetTextHeight :: int
  GetTextWidth :: int
  GetShownText :: "string option"
  GetText :: string
  IsMirrored :: bool
  IsItalic :: bool
  IsBold :: bool
  GetHorizJustify :: int
  GetVertJustify :: int

record rect =
  rect_GetPosition :: wxPoint
  rect_GetSize :: wxPoint

datatype item_body =
    DRAWSEGMENT pcb_shape
  | MGRAPHIC pcb_shape
  | PCB_SHAPE pcb_shape
  | PTEXT pcb_text
  | MTEXT pcb_text
  | OTHER_ITEM string

record item =
  item_GetLayer :: layer
  item_GetBoundingBox :: rect
  body :: item_body

fun GetClass :: "item \<Rightarrow> string" where
  "GetClass d = (case body d of
       DRAWSEGMENT _ \<Rightarrow> ''DRAWSEGMENT''
     | MGRAPHIC _ \<Rightarrow> ''MGRAPHIC''
     | PCB_SHAPE _ \<Rightarrow> ''PCB_SHAPE''
     | PTEXT _ \<Rightarrow> ''PTEXT''
     | MTEXT _ \<Rightarrow> ''MTEXT''
     | OTHER_ITEM c \<Rightarrow> c)"

datatype pad_shape_t =
    PAD_SHAPE_RECT | PAD_SHAPE_OVAL | PAD_SHAPE_CIRCLE | PAD_SHAPE_ROUNDRECT
  | PAD_SHAPE_CUSTOM | PAD_SHAPE_CHAMFERED_RECT | PAD_SHAPE_OTHER nat

text \<open>
  \<open>PAD_ATTRIB_PTH\<close> and \<open>PAD_ATTRIB_NPTH\<close> are called \<^verbatim>\<open>PAD_ATTRIB_STANDARD\<close> and
  \<^verbatim>\<open>PAD_ATTRIB_HOLE_NOT_PLATED\<close> on older hosts.
\<close>
datatype pad_attr_t = PAD_ATTRIB_PTH | PAD_ATTRIB_SMD | PAD_ATTRIB_CONN | PAD_ATTRIB_NPTH

datatype drill_shape_t = PAD_DRILL_SHAPE_CIRCLE | PAD_DRILL_SHAPE_OBLONG | PAD_DRILL_SHAPE_OTHER nat

record pad =
  GetPadName :: string
  pad_GetLayerSet :: "layer list"
  pad_GetPosition :: wxPoint
  pad_GetSize :: wxPoint
  pad_GetOrientation :: rat
  pad_GetShape :: pad_shape_t
  GetCustomShapeAsPolygon :: polygon_set
  GetRoundRectCornerRadius :: int
  GetChamferPositions :: int
  GetChamferRectRatio :: rat
  GetAttribute :: pad_attr_t
  GetDrillShape :: drill_shape_t
  GetDrillSize :: wxPoint
  GetOffset :: "wxPoint option"
  pad_GetNetname :: string

record footprint =
  GetReference :: string
  GetValue :: string
  fp_GetPosition :: wxPoint
  fp_GetOrientation :: rat
  GraphicalItems :: "item list"
  Pads :: "pad list"
  fp_GetLayer :: layer
  Reference :: item
  Value :: item
  GetFPID :: string
  GetAttributes :: nat

text \<open>A track object: \<open>track_GetClass\<close> is \<^verbatim>\<open>"VIA"\<close>, \<^verbatim>\<open>"ARC"\<close> or another class name.\<close>
record track =
  track_GetClass :: string
  track_GetStart :: wxPoint
  track_GetEnd :: wxPoint
  track_GetWidth :: int
  track_GetNetname :: string
  IsOnLayer :: "layer \<Rightarrow> bool"
  track_GetLayer :: layer
  track_GetArcAngleStart :: rat
  track_GetAngle :: rat
  GetCenter :: wxPoint
  track_GetRadius :: rat

text \<open>
  A zone. \<open>GetFilledPolysList\<close> is \<open>Inl\<close> on hosts (KiCad 5.1 and earlier) where the
  method takes no argument, and \<open>Inr\<close> where it takes the layer and the call
  without one raises \<^verbatim>\<open>TypeError\<close>.
\<close>
record zone =
  IsFilled :: bool
  GetIsKeepout :: "bool option"
  GetIsRuleArea :: "bool option"
  zone_GetLayerSet :: "layer list"
  GetFilledPolysList :: "polygon_set + (layer \<Rightarrow> polygon_set)"
  GetMinThickness :: int
  GetFilledPolysUseThickness :: "bool option"
  zone_GetNetname :: string

text \<open>
  \<^verbatim>\<open>NETINFO_LIST\<close>: \<open>NetsByName\<close> is a dictionary, so its keys are distinct by type.
\<close>
record netinfo_list =
  NetsByName :: "(string, nat) alist"

record title_block =
  GetTitle :: string
  GetRevision :: string
  GetCompany :: string
  GetDate :: string

record board =
  GetDrawings :: "item list"
  GetTitleBlock :: title_block
  GetProject :: "string option"
  GetTracks :: "track list"
  Zones :: "zone list option"
  GetNetInfo :: "netinfo_list option"

subsection \<open>Configuration, collaborators and the parser state\<close>

record config =
  extra_fields :: "string list"
  board_variant_whitelist :: "string list"
  board_variant_blacklist :: "string list"
  dnp_field :: string
  netlist_file :: string
  normalize_field_case :: bool
  include_tracks :: bool
  include_nets :: bool

type_synonym fields = "(string \<times> string) list"

text \<open>
  What the parser calls and this file does not define: attributes of the pcbnew
  module that may be missing (\<open>None\<close>), pcbnew methods on rectangles and
  footprints, \<^verbatim>\<open>os.path\<close>, the file's modification time already formatted,
  \<^verbatim>\<open>create_path\<close> of svgpath, the font parser's result, and the schematic-data
  parser installed as \<^verbatim>\<open>extra_data_func\<close>.
\<close>
record env =
  has_PAD_SHAPE_ROUNDRECT :: bool
  has_PAD_SHAPE_CUSTOM :: bool
  has_PAD_SHAPE_CHAMFERED_RECT :: bool
  FP_EXCLUDE_FROM_BOM :: "nat option"
  MOD_VIRTUAL :: "nat option"
  ExpandTextVars :: "(string \<Rightarrow> string \<Rightarrow> string) option"
  Merge :: "rect \<Rightarrow> rect \<Rightarrow> rect"
  Normalize :: "rect \<Rightarrow> rect"
  GetRight :: "rect \<Rightarrow> int"
  GetBottom :: "rect \<Rightarrow> int"
  GetFootprintRect :: "(footprint \<Rightarrow> rect) option"
  GetBoundingBox_FF :: "footprint \<Rightarrow> rect"
  isfile :: "string \<Rightarrow> bool"
  basename :: "string \<Rightarrow> string"
  splitext0 :: "string \<Rightarrow> string"
  getmtime_strftime :: "string \<Rightarrow> string"
  create_path :: "vec2 list list \<Rightarrow> string"
  get_parsed_font :: "string list \<Rightarrow> string"
  extra_data_func :: "string \<Rightarrow> bool \<Rightarrow> (string list \<times> (string \<times> fields) list) option"

datatype log_level = INFO | WARN | ERROR

datatype log_arg = ArgShape shape_t | ArgPadShape pad_shape_t | ArgStr string

text \<open>A logger call: level, message (or format string) and the format arguments.\<close>
datatype log_entry = Log log_level string "log_arg list"

text \<open>
  The mutable world of a parse: the logger's output, the strings handed to the font
  parser, and the store of footprint objects. Addresses below \<open>next_free\<close> are in
  use; the footprint copy constructor allocates at \<open>next_free\<close>.
\<close>
record pstate =
  logger :: "log_entry list"
  font_parser :: "string list"
  heap :: "nat \<Rightarrow> footprint"
  next_free :: nat

definition log :: "log_level \<Rightarrow> string \<Rightarrow> log_arg list \<Rightarrow> pstate \<Rightarrow> pstate" where
  "log lv msg args s = s\<lparr>logger := logger s @ [Log lv msg args]\<rparr>"

text \<open>The parser object: \<open>footprints\<close> holds references to the board's footprints.\<close>
record parser =
  file_name :: string
  cfg :: config
  brd :: board
  footprints :: "nat list"

subsection \<open>normalize, parse\_poly\_set, parse\_netlist\<close>

definition normalize :: "wxPoint \<Rightarrow> vec2" where
  "normalize point = (of_int (fst point) * (1 / 1000000), of_int (snd point) * (1 / 1000000))"

text \<open>
  The loop of \<^verbatim>\<open>parse_poly_set\<close> over the remaining outline indices, with the
  result list built so far; an outline without \<^verbatim>\<open>PointCount\<close> logs a warning and
  returns what has been collected.
\<close>
fun parse_poly_set_loop ::
  "polygon_set \<Rightarrow> nat list \<Rightarrow> vec2 list list \<Rightarrow> pstate \<Rightarrow> vec2 list list \<times> pstate" where
  "parse_poly_set_loop polygon_set [] result s = (result, s)"
| "parse_poly_set_loop polygon_set (polygon_index # rest) result s =
     (let outl = Outline polygon_set polygon_index in
      case PointCount outl of
        None \<Rightarrow>
          (result,
           log WARN ''No PointCount method on outline object. Unpatched kicad version?'' [] s)
      | Some n \<Rightarrow>
          (let parsed_outline = map (\<lambda>point_index. normalize (CPoint outl point_index)) [0..<n]
           in parse_poly_set_loop polygon_set rest (result @ [parsed_outline]) s))"

definition parse_poly_set :: "polygon_set \<Rightarrow> pstate \<Rightarrow> vec2 list list \<times> pstate" where
  "parse_poly_set polygon_set s =
     parse_poly_set_loop polygon_set [0..<OutlineCount polygon_set] [] s"

text \<open>\<^verbatim>\<open>str(s)\<close> of a key that is a string already; \<^verbatim>\<open>nets.sort()\<close>.\<close>
definition parse_netlist :: "netinfo_list \<Rightarrow> string list" where
  "parse_netlist net_info =
     (let nets = map fst (DAList.impl_of (NetsByName net_info));
          nets = map (\<lambda>s. s) nets
      in sort nets)"

subsection \<open>Parsed records\<close>

text \<open>
  The value under \<^verbatim>\<open>"angle"\<close> of a polygon: the integer \<^verbatim>\<open>0\<close>, or, when the shape
  has a parent footprint, the one-element tuple that the trailing comma of the
  assignment builds.
\<close>
datatype polygon_angle = Zero | Tuple1 rat

text \<open>The dictionaries that \<^verbatim>\<open>parse_shape\<close> and \<^verbatim>\<open>parse_text\<close> return, key by key.\<close>
datatype drawing_dict =
    SegmentD (dtype: string) (start: vec2) (end': vec2) (width: rat)
  | CircleD (start: vec2) (radius: rat) (width: rat)
  | ArcD (start: vec2) (radius: rat) (startangle: rat) (endangle: rat) (width: rat)
  | PolygonD (pos: vec2) (angle: polygon_angle) (polygons: "vec2 list list")
  | CurveD (start: vec2) (cpa: vec2) (cpb: vec2) (end': vec2) (width: rat)
  | SvgTextD (thickness: rat) (svgpath: string)
  | TextD (pos: vec2) (text': string) (height: rat) (width: rat) (justify: "int \<times> int")
      (thickness: rat) (attr: "string list") (angle': rat)

subsection \<open>parse\_shape\<close>

text \<open>Python 3's \<^verbatim>\<open>round\<close> to the nearest integer, ties to the even one.\<close>
definition round_half_even :: "rat \<Rightarrow> int" where
  "round_half_even x =
     (let f = \<lfloor>x\<rfloor>; d = x - of_int f
      in if d < 1 / 2 then f else if 1 / 2 < d then f + 1 else if even f then f else f + 1)"

text \<open>\<^verbatim>\<open>round(x, ndigits)\<close>.\<close>
definition py_round :: "rat \<Rightarrow> nat \<Rightarrow> rat" where
  "py_round x ndigits = of_int (round_half_even (x * 10 ^ ndigits)) / 10 ^ ndigits"

definition shape_lookup_name :: "shape_t \<Rightarrow> string" where
  "shape_lookup_name t =
     (case t of
        S_SEGMENT \<Rightarrow> ''segment''
      | S_CIRCLE \<Rightarrow> ''circle''
      | S_ARC \<Rightarrow> ''arc''
      | S_POLYGON \<Rightarrow> ''polygon''
      | S_CURVE \<Rightarrow> ''curve''
      | S_RECT \<Rightarrow> ''rect''
      | S_OTHER _ \<Rightarrow> '''')"

definition parse_shape :: "pcb_shape \<Rightarrow> pstate \<Rightarrow> drawing_dict option \<times> pstate" where
  "parse_shape d s =
     (let shape = shape_lookup_name (GetShape d) in
      if shape = '''' then
        (None, log INFO ''Unsupported shape %s, skipping'' [ArgShape (GetShape d)] s)
      else
        let start = normalize (GetStart d);
            end' = normalize (GetEnd d)
        in
        if shape \<in> set [''segment'', ''rect''] then
          (Some (SegmentD shape start end' (of_int (GetWidth d) * (1 / 1000000))), s)
        else if shape = ''circle'' then
          (Some (CircleD start (of_int (GetRadius d) * (1 / 1000000))
                   (of_int (GetWidth d) * (1 / 1000000))), s)
        else if shape = ''arc'' then
          (let a1 = py_round (GetArcAngleStart d * (1 / 10)) 2;
               a2 = py_round ((GetArcAngleStart d + GetAngle d) * (1 / 10)) 2;
               (a1, a2) = (if GetAngle d < 0 then (a2, a1) else (a1, a2))
           in (Some (ArcD start (of_int (GetRadius d) * (1 / 1000000)) a1 a2
                       (of_int (GetWidth d) * (1 / 1000000))), s))
        else if shape = ''polygon'' then
          (case GetPolyShape d of
             None \<Rightarrow> (None, log INFO ''Polygons not supported for KiCad 4, skipping'' [] s)
           | Some poly_shape \<Rightarrow>
               (let (polygons, s) = parse_poly_set poly_shape s;
                    angle = (case GetParentFootprint d of
                               None \<Rightarrow> Zero
                             | Some parent_footprint \<Rightarrow>
                                 Tuple1 (fp_GetOrientation (heap s parent_footprint) * (1 / 10)))
                in (Some (PolygonD start angle polygons), s)))
        else if shape = ''curve'' then
          (Some (CurveD start (normalize (GetBezControl1 d)) (normalize (GetBezControl2 d)) end'
                   (of_int (GetWidth d) * (1 / 1000000))), s)
        else (None, s))"

subsection \<open>parse\_text\<close>

text \<open>
  The loop that joins stroke segments into polylines: \<open>prev\<close> is the end point of
  the segment before (\<open>None\<close> in the first round), and a segment that does not
  start there opens a new polyline; its end point goes to the last polyline.
\<close>
fun segments_to_lines :: "(vec2 \<times> vec2) list \<Rightarrow> vec2 option \<Rightarrow> vec2 list list \<Rightarrow> vec2 list list" where
  "segments_to_lines [] prev lines = lines"
| "segments_to_lines ((a, b) # rest) prev lines =
     (let lines = (if prev = None \<or> prev \<noteq> Some a then lines @ [[a]] else lines);
          lines = butlast lines @ [last lines @ [b]]
      in segments_to_lines rest (Some b) lines)"

definition parse_font_for_string :: "string \<Rightarrow> pstate \<Rightarrow> pstate" where
  "parse_font_for_string t s = s\<lparr>font_parser := font_parser s @ [t]\<rparr>"

definition parse_text :: "env \<Rightarrow> string \<Rightarrow> pcb_text \<Rightarrow> pstate \<Rightarrow> drawing_dict option \<times> pstate" where
  "parse_text e cls d s =
     (let pos = normalize (text_GetPosition d) in
      if \<not> IsVisible d then (None, s)
      else
        let thickness = of_int (GetTextThickness d) * (1 / 1000000) in
        case TransformToSegmentList d of
          Some segment_list \<Rightarrow>
            (let segments = map (\<lambda>(p, q). (normalize p, normalize q)) segment_list;
                 lines = segments_to_lines segments None []
             in (Some (SvgTextD thickness (create_path e lines)), s))
        | None \<Rightarrow>
            (let angle = (if cls = ''MTEXT'' then GetDrawRotation d * (1 / 10)
                          else GetTextAngle d * (1 / 10));
                 height = of_int (GetTextHeight d) * (1 / 1000000);
                 width = of_int (GetTextWidth d) * (1 / 1000000);
                 text = (case GetShownText d of Some t \<Rightarrow> t | None \<Rightarrow> GetText d);
                 s = parse_font_for_string text s;
                 attributes = [];
                 attributes = (if IsMirrored d then attributes @ [''mirrored''] else attributes);
                 attributes = (if IsItalic d then attributes @ [''italic''] else attributes);
                 attributes = (if IsBold d then attributes @ [''bold''] else attributes)
             in (Some (TextD pos text height width (GetHorizJustify d, GetVertJustify d)
                         thickness attributes angle), s)))"

subsection \<open>parse\_drawing, parse\_edges, drawings by layer\<close>

text \<open>
  Dispatch on \<^verbatim>\<open>GetClass()\<close>; \<open>OTHER_ITEM\<close> stands for every class that is neither
  a shape nor a text class.
\<close>
definition parse_drawing :: "env \<Rightarrow> item \<Rightarrow> pstate \<Rightarrow> drawing_dict option \<times> pstate" where
  "parse_drawing e d s =
     (case body d of
        DRAWSEGMENT sh \<Rightarrow> parse_shape sh s
      | MGRAPHIC sh \<Rightarrow> parse_shape sh s
      | PCB_SHAPE sh \<Rightarrow> parse_shape sh s
      | PTEXT t \<Rightarrow> parse_text e (GetClass d) t s
      | MTEXT t \<Rightarrow> parse_text e (GetClass d) t s
      | OTHER_ITEM c \<Rightarrow>
          (None, log INFO ''Unsupported drawing class %s, skipping'' [ArgStr (GetClass d)] s))"

fun parse_edges_loop ::
  "env \<Rightarrow> item list \<Rightarrow> drawing_dict list \<Rightarrow> rect option \<Rightarrow> pstate \<Rightarrow>
   (drawing_dict list \<times> rect option) \<times> pstate" where
  "parse_edges_loop e [] edges bbox s = ((edges, bbox), s)"
| "parse_edges_loop e (d # ds) edges bbox s =
     (if item_GetLayer d = Edge_Cuts then
        (case parse_drawing e d s of
           (Some parsed_drawing, s) \<Rightarrow>
             parse_edges_loop e ds (edges @ [parsed_drawing])
               (case bbox of
                  None \<Rightarrow> Some (item_GetBoundingBox d)
                | Some b \<Rightarrow> Some (Merge e b (item_GetBoundingBox d))) s
         | (None, s) \<Rightarrow> parse_edges_loop e ds edges bbox s)
      else parse_edges_loop e ds edges bbox s)"

definition parse_edges ::
  "env \<Rightarrow> parser \<Rightarrow> board \<Rightarrow> pstate \<Rightarrow> (drawing_dict list \<times> rect option) \<times> pstate" where
  "parse_edges e self pcb s =
     (let drawings = GetDrawings pcb @
            concat (map (\<lambda>f. GraphicalItems (heap s f)) (footprints self));
          ((edges, bbox), s) = parse_edges_loop e drawings [] None s;
          bbox = (case bbox of Some b \<Rightarrow> Some (Normalize e b) | None \<Rightarrow> None)
      in ((edges, bbox), s))"

text \<open>
  A front/back pair of lists, the dictionary \<^verbatim>\<open>{"F": ..., "B": ...}\<close>.
\<close>
record 'a fb =
  F :: "'a list"
  B :: "'a list"

text \<open>
  A drawing of a layer pair: the parsed dictionary and the key (\<^verbatim>\<open>"ref"\<close> or
  \<^verbatim>\<open>"val"\<close>) that \<^verbatim>\<open>parse_drawings_on_layers\<close> sets to 1 in it, if any.
\<close>
type_synonym layer_drawing = "drawing_dict \<times> string option"

fun parse_drawings_on_layers_loop ::
  "env \<Rightarrow> (string \<times> item) list \<Rightarrow> layer \<Rightarrow> layer \<Rightarrow> layer_drawing list \<Rightarrow> layer_drawing list \<Rightarrow>
   pstate \<Rightarrow> layer_drawing fb \<times> pstate" where
  "parse_drawings_on_layers_loop e [] f_layer b_layer front back s =
     (\<lparr>F = front, B = back\<rparr>, s)"
| "parse_drawings_on_layers_loop e (d # ds) f_layer b_layer front back s =
     (if item_GetLayer (snd d) \<notin> set [f_layer, b_layer] then
        parse_drawings_on_layers_loop e ds f_layer b_layer front back s
      else
        case parse_drawing e (snd d) s of
          (None, s) \<Rightarrow> parse_drawings_on_layers_loop e ds f_layer b_layer front back s
        | (Some drawing, s) \<Rightarrow>
            (let drawing = (drawing, if fst d \<in> set [''ref'', ''val''] then Some (fst d) else None)
             in if item_GetLayer (snd d) = f_layer then
                  parse_drawings_on_layers_loop e ds f_layer b_layer (front @ [drawing]) back s
                else
                  parse_drawings_on_layers_loop e ds f_layer b_layer front (back @ [drawing]) s))"

definition parse_drawings_on_layers ::
  "env \<Rightarrow> (string \<times> item) list \<Rightarrow> layer \<Rightarrow> layer \<Rightarrow> pstate \<Rightarrow> layer_drawing fb \<times> pstate" where
  "parse_drawings_on_layers e drawings f_layer b_layer s =
     parse_drawings_on_layers_loop e drawings f_layer b_layer [] [] s"

definition get_all_drawings :: "parser \<Rightarrow> pstate \<Rightarrow> (string \<times> item) list" where
  "get_all_drawings self s =
     map (\<lambda>d. (GetClass d, d)) (GetDrawings (brd self)) @
     concat (map (\<lambda>f. [(''ref'', Reference (heap s f)), (''val'', Value (heap s f))] @
                       map (\<lambda>d. (GetClass d, d)) (GraphicalItems (heap s f)))
              (footprints self))"

subsection \<open>parse\_pad\<close>

text \<open>
  The pad dictionary. A key that is set on some paths only is an \<open>option\<close>;
  \<^verbatim>\<open>"drillshape"\<close> holds the result of a lookup that may itself be \<^verbatim>\<open>None\<close>.
\<close>
record pad_dict =
  pd_layers :: "string list"
  pd_pos :: vec2
  pd_size :: vec2
  pd_angle :: rat
  pd_shape :: string
  pd_polygons :: "vec2 list list option"
  pd_radius :: "rat option"
  pd_chamfpos :: "int option"
  pd_chamfratio :: "rat option"
  pd_type :: string
  pd_drillshape :: "string option option"
  pd_drillsize :: "vec2 option"
  pd_offset :: "vec2 option"
  pd_net :: "string option"
  pd_pin1 :: "int option"

text \<open>
  \<^verbatim>\<open>shape_lookup.get(pad.GetShape(), "")\<close>; the three later shapes are in the table
  only when pcbnew has them.
\<close>
definition pad_shape_lookup :: "env \<Rightarrow> pad_shape_t \<Rightarrow> string" where
  "pad_shape_lookup e t =
     (case t of
        PAD_SHAPE_RECT \<Rightarrow> ''rect''
      | PAD_SHAPE_OVAL \<Rightarrow> ''oval''
      | PAD_SHAPE_CIRCLE \<Rightarrow> ''circle''
      | PAD_SHAPE_ROUNDRECT \<Rightarrow> (if has_PAD_SHAPE_ROUNDRECT e then ''roundrect'' else '''')
      | PAD_SHAPE_CUSTOM \<Rightarrow> (if has_PAD_SHAPE_CUSTOM e then ''custom'' else '''')
      | PAD_SHAPE_CHAMFERED_RECT \<Rightarrow>
          (if has_PAD_SHAPE_CHAMFERED_RECT e then ''chamfrect'' else '''')
      | PAD_SHAPE_OTHER _ \<Rightarrow> '''')"

definition drill_shape_lookup :: "drill_shape_t \<Rightarrow> string option" where
  "drill_shape_lookup t =
     (case t of
        PAD_DRILL_SHAPE_CIRCLE \<Rightarrow> Some ''circle''
      | PAD_DRILL_SHAPE_OBLONG \<Rightarrow> Some ''oblong''
      | PAD_DRILL_SHAPE_OTHER _ \<Rightarrow> None)"

text \<open>
  \<^verbatim>\<open>parse_pad\<close> fills the dictionary block by block; each block of the source is a
  function here: the polygons of a custom pad, the corner radius and chamfer, the
  hole, and the offset and net.
\<close>
definition pad_custom_block :: "pad \<Rightarrow> string \<Rightarrow> pad_dict \<Rightarrow> pstate \<Rightarrow> pad_dict \<times> pstate" where
  "pad_custom_block pad shape pad_dict s =
     (if shape = ''custom'' then
        let polygon_set = GetCustomShapeAsPolygon pad;
            s = (if HasHoles polygon_set
                 then log WARN ''Detected holes in custom pad polygons'' [] s else s);
            s = (if IsSelfIntersecting polygon_set
                 then log WARN ''Detected self intersecting polygons in custom pad'' [] s
                 else s);
            (polygons, s) = parse_poly_set polygon_set s
        in (pad_dict\<lparr>pd_polygons := Some polygons\<rparr>, s)
      else (pad_dict, s))"

definition pad_corner_block :: "pad \<Rightarrow> string \<Rightarrow> pad_dict \<Rightarrow> pad_dict" where
  "pad_corner_block pad shape pad_dict =
     (let pad_dict =
            (if shape \<in> set [''roundrect'', ''chamfrect'']
             then pad_dict\<lparr>pd_radius :=
                    Some (of_int (GetRoundRectCornerRadius pad) * (1 / 1000000))\<rparr>
             else pad_dict)
      in if shape = ''chamfrect''
         then pad_dict\<lparr>pd_chamfpos := Some (GetChamferPositions pad),
                        pd_chamfratio := Some (GetChamferRectRatio pad)\<rparr>
         else pad_dict)"

definition pad_hole_block :: "pad \<Rightarrow> pad_dict \<Rightarrow> pad_dict" where
  "pad_hole_block pad pad_dict =
     (let through_hole_attributes = [PAD_ATTRIB_PTH, PAD_ATTRIB_NPTH]
      in if GetAttribute pad \<in> set through_hole_attributes
         then pad_dict\<lparr>pd_type := ''th'',
                        pd_drillshape := Some (drill_shape_lookup (GetDrillShape pad)),
                        pd_drillsize := Some (normalize (GetDrillSize pad))\<rparr>
         else pad_dict\<lparr>pd_type := ''smd''\<rparr>)"

definition pad_offset_net_block :: "config \<Rightarrow> pad \<Rightarrow> pad_dict \<Rightarrow> pad_dict" where
  "pad_offset_net_block config pad pad_dict =
     (let pad_dict =
            (case GetOffset pad of
               Some off \<Rightarrow> pad_dict\<lparr>pd_offset := Some (normalize off)\<rparr>
             | None \<Rightarrow> pad_dict)
      in if include_nets config then pad_dict\<lparr>pd_net := Some (pad_GetNetname pad)\<rparr>
         else pad_dict)"

definition parse_pad :: "env \<Rightarrow> config \<Rightarrow> pad \<Rightarrow> pstate \<Rightarrow> pad_dict option \<times> pstate" where
  "parse_pad e config pad s =
     (let layers_set = pad_GetLayerSet pad;
          layers = [];
          layers = (if F_Cu \<in> set layers_set then layers @ [''F''] else layers);
          layers = (if B_Cu \<in> set layers_set then layers @ [''B''] else layers);
          pos = normalize (pad_GetPosition pad);
          size = normalize (pad_GetSize pad);
          angle = pad_GetOrientation pad * (- (1 / 10));
          shape = pad_shape_lookup e (pad_GetShape pad)
      in
      if shape = '''' then
        (None, log INFO ''Unsupported pad shape %s, skipping.'' [ArgPadShape (pad_GetShape pad)] s)
      else
        let pad_dict = \<lparr>pd_layers = layers, pd_pos = pos, pd_size = size, pd_angle = angle,
                         pd_shape = shape, pd_polygons = None, pd_radius = None,
                         pd_chamfpos = None, pd_chamfratio = None, pd_type = '''',
                         pd_drillshape = None, pd_drillsize = None, pd_offset = None,
                         pd_net = None, pd_pin1 = None\<rparr>;
            (pad_dict, s) = pad_custom_block pad shape pad_dict s;
            pad_dict = pad_corner_block pad shape pad_dict;
            pad_dict = pad_hole_block pad pad_dict;
            pad_dict = pad_offset_net_block config pad pad_dict
        in (Some pad_dict, s))"

subsection \<open>parse\_footprints\<close>

record bbox_dict =
  bb_pos :: vec2
  bb_relpos :: vec2
  bb_size :: vec2
  bb_angle :: rat

record footprint_dict =
  fd_ref :: string
  fd_bbox :: bbox_dict
  fd_pads :: "pad_dict list"
  fd_drawings :: "(string \<times> drawing_dict) list"
  fd_layer :: "string option"

text \<open>
  The footprint copy constructor (\<^verbatim>\<open>pcbnew.MODULE(f)\<close> or \<^verbatim>\<open>pcbnew.FOOTPRINT(f)\<close>):
  a new object with the state of \<open>f\<close>; and the two setters, which write to the
  object they are called on.
\<close>
definition FOOTPRINT :: "nat \<Rightarrow> pstate \<Rightarrow> nat \<times> pstate" where
  "FOOTPRINT f s =
     (next_free s,
      s\<lparr>heap := (heap s)(next_free s := heap s f), next_free := Suc (next_free s)\<rparr>)"

definition SetOrientation :: "nat \<Rightarrow> rat \<Rightarrow> pstate \<Rightarrow> pstate" where
  "SetOrientation f v s = s\<lparr>heap := (heap s)(f := (heap s f)\<lparr>fp_GetOrientation := v\<rparr>)\<rparr>"

definition SetPosition :: "nat \<Rightarrow> wxPoint \<Rightarrow> pstate \<Rightarrow> pstate" where
  "SetPosition f v s = s\<lparr>heap := (heap s)(f := (heap s f)\<lparr>fp_GetPosition := v\<rparr>)\<rparr>"

text \<open>The loop over \<^verbatim>\<open>f.GraphicalItems()\<close>, which keeps the copper drawings.\<close>
fun footprint_drawings_loop ::
  "env \<Rightarrow> item list \<Rightarrow> (string \<times> drawing_dict) list \<Rightarrow> pstate \<Rightarrow>
   (string \<times> drawing_dict) list \<times> pstate" where
  "footprint_drawings_loop e [] drawings s = (drawings, s)"
| "footprint_drawings_loop e (d # ds) drawings s =
     (if item_GetLayer d \<notin> set [F_Cu, B_Cu] then footprint_drawings_loop e ds drawings s
      else
        case parse_drawing e d s of
          (None, s) \<Rightarrow> footprint_drawings_loop e ds drawings s
        | (Some drawing, s) \<Rightarrow>
            footprint_drawings_loop e ds
              (drawings @ [(if item_GetLayer d = F_Cu then ''F'' else ''B'', drawing)]) s)"

text \<open>The loop over \<^verbatim>\<open>f.Pads()\<close>, which pairs each parsed pad with its name.\<close>
fun footprint_pads_loop ::
  "env \<Rightarrow> config \<Rightarrow> pad list \<Rightarrow> (string \<times> pad_dict) list \<Rightarrow> pstate \<Rightarrow>
   (string \<times> pad_dict) list \<times> pstate" where
  "footprint_pads_loop e config [] pads s = (pads, s)"
| "footprint_pads_loop e config (p # ps) pads s =
     (case parse_pad e config p s of
        (Some pad_dict, s) \<Rightarrow> footprint_pads_loop e config ps (pads @ [(GetPadName p, pad_dict)]) s
      | (None, s) \<Rightarrow> footprint_pads_loop e config ps pads s)"

text \<open>
  The guess of the first pin: under \<^verbatim>\<open>if pads:\<close> the list is sorted by name and
  rebound, the pin-1 name is chosen, and every pad of that name gets \<^verbatim>\<open>pin1 = 1\<close>;
  then the names are dropped.
\<close>
definition guess_pin1 :: "(string \<times> pad_dict) list \<Rightarrow> pad_dict list" where
  "guess_pin1 pads =
     (let pads =
        (if pads \<noteq> [] then
           let pads = sort_key fst pads;
               pin1_pads = filter (\<lambda>p. fst p \<in> set [''1'', ''A'', ''A1'', ''P1'', ''PAD1'']) pads;
               pin1_pad_name = (if pin1_pads \<noteq> [] then fst (pin1_pads ! 0) else fst (pads ! 0))
           in map (\<lambda>(pad_name, pad_dict).
                     if pad_name = pin1_pad_name then (pad_name, pad_dict\<lparr>pd_pin1 := Some 1\<rparr>)
                     else (pad_name, pad_dict)) pads
         else pads)
      in map snd pads)"

definition layer_lookup :: "layer \<Rightarrow> string option" where
  "layer_lookup l = (if l = F_Cu then Some ''F'' else if l = B_Cu then Some ''B'' else None)"

text \<open>One round of the loop of \<^verbatim>\<open>parse_footprints\<close>, for the footprint at \<open>f\<close>.\<close>
definition parse_footprint :: "env \<Rightarrow> config \<Rightarrow> nat \<Rightarrow> pstate \<Rightarrow> footprint_dict \<times> pstate" where
  "parse_footprint e config f s =
     (let ref = GetReference (heap s f);
          (f_copy, s) = FOOTPRINT f s;
          s = SetOrientation f_copy 0 s;
          s = SetPosition f_copy (0, 0) s;
          footprint_rect = (case GetFootprintRect e of
                              Some get_rect \<Rightarrow> get_rect (heap s f_copy)
                            | None \<Rightarrow> GetBoundingBox_FF e (heap s f_copy));
          bbox = \<lparr>bb_pos = normalize (fp_GetPosition (heap s f)),
                  bb_relpos = normalize (rect_GetPosition footprint_rect),
                  bb_size = normalize (rect_GetSize footprint_rect),
                  bb_angle = fp_GetOrientation (heap s f) * (1 / 10)\<rparr>;
          (drawings, s) = footprint_drawings_loop e (GraphicalItems (heap s f)) [] s;
          (pads, s) = footprint_pads_loop e config (Pads (heap s f)) [] s;
          pads = guess_pin1 pads
      in (\<lparr>fd_ref = ref, fd_bbox = bbox, fd_pads = pads, fd_drawings = drawings,
           fd_layer = layer_lookup (fp_GetLayer (heap s f))\<rparr>, s))"

fun parse_footprints_loop ::
  "env \<Rightarrow> config \<Rightarrow> nat list \<Rightarrow> footprint_dict list \<Rightarrow> pstate \<Rightarrow> footprint_dict list \<times> pstate" where
  "parse_footprints_loop e config [] result s = (result, s)"
| "parse_footprints_loop e config (f # fs) result s =
     (let (fd, s) = parse_footprint e config f s
      in parse_footprints_loop e config fs (result @ [fd]) s)"

definition parse_footprints :: "env \<Rightarrow> parser \<Rightarrow> pstate \<Rightarrow> footprint_dict list \<times> pstate" where
  "parse_footprints e self s = parse_footprints_loop e (cfg self) (footprints self) [] s"

subsection \<open>parse\_tracks, parse\_zones\<close>

text \<open>
  The track dictionaries: a via or a straight segment has start and end, an arc has
  centre, angles and radius; \<^verbatim>\<open>"net"\<close> is a key that may be absent.
\<close>
datatype track_dict =
    SegmentT (t_start: vec2) (t_end: vec2) (t_width: rat) (t_net: "string option")
  | ArcT (t_center: vec2) (t_startangle: rat) (t_endangle: rat) (t_radius: rat) (t_width: rat)
      (t_net: "string option")

text \<open>
  The loop of \<^verbatim>\<open>parse_tracks\<close>; \<open>result\<close> is the dictionary keyed by the two copper
  layers, as the pair of its values.
\<close>
fun parse_tracks_loop ::
  "config \<Rightarrow> track list \<Rightarrow> track_dict list \<times> track_dict list \<Rightarrow>
   track_dict list \<times> track_dict list" where
  "parse_tracks_loop config [] result = result"
| "parse_tracks_loop config (track # tracks) result =
     (if track_GetClass track = ''VIA'' then
        let track_dict = SegmentT (normalize (track_GetStart track)) (normalize (track_GetEnd track))
                           (of_int (track_GetWidth track) * (1 / 1000000))
                           (Some (track_GetNetname track));
            result = (if IsOnLayer track F_Cu then (fst result @ [track_dict], snd result)
                      else result);
            result = (if IsOnLayer track B_Cu then (fst result, snd result @ [track_dict])
                      else result)
        in parse_tracks_loop config tracks result
      else if track_GetLayer track \<in> set [F_Cu, B_Cu] then
        let net = (if include_nets config then Some (track_GetNetname track) else None);
            track_dict =
              (if track_GetClass track = ''ARC'' then
                 let a1 = py_round (track_GetArcAngleStart track * (1 / 10)) 2;
                     a2 = py_round ((track_GetArcAngleStart track + track_GetAngle track)
                                     * (1 / 10)) 2;
                     (a1, a2) = (if track_GetAngle track < 0 then (a2, a1) else (a1, a2))
                 in ArcT (normalize (GetCenter track)) a1 a2
                      (track_GetRadius track * (1 / 1000000))
                      (of_int (track_GetWidth track) * (1 / 1000000)) net
               else
                 SegmentT (normalize (track_GetStart track)) (normalize (track_GetEnd track))
                   (of_int (track_GetWidth track) * (1 / 1000000)) net);
            result = (if track_GetLayer track = F_Cu then (fst result @ [track_dict], snd result)
                      else (fst result, snd result @ [track_dict]))
        in parse_tracks_loop config tracks result
      else parse_tracks_loop config tracks result)"

definition parse_tracks :: "config \<Rightarrow> track list \<Rightarrow> track_dict fb" where
  "parse_tracks config tracks =
     (let result = parse_tracks_loop config tracks ([], [])
      in \<lparr>F = fst result, B = snd result\<rparr>)"

record zone_dict =
  z_polygons :: "vec2 list list"
  z_width :: rat
  z_net :: "string option"

text \<open>The inner loop of \<^verbatim>\<open>parse_zones\<close>, over the copper layers of one zone.\<close>
fun parse_zone_layers ::
  "config \<Rightarrow> zone \<Rightarrow> layer list \<Rightarrow> zone_dict list \<times> zone_dict list \<Rightarrow> pstate \<Rightarrow>
   (zone_dict list \<times> zone_dict list) \<times> pstate" where
  "parse_zone_layers config zone [] result s = (result, s)"
| "parse_zone_layers config zone (layer # layers) result s =
     (let poly_set = (case GetFilledPolysList zone of
                        Inl poly_set \<Rightarrow> poly_set
                      | Inr by_layer \<Rightarrow> by_layer layer);
          width = of_int (GetMinThickness zone) * (1 / 1000000);
          width = (if GetFilledPolysUseThickness zone = Some False then 0 else width);
          (polygons, s) = parse_poly_set poly_set s;
          zone_dict = \<lparr>z_polygons = polygons, z_width = width,
                       z_net = (if include_nets config then Some (zone_GetNetname zone) else None)\<rparr>;
          result = (if layer = F_Cu then (fst result @ [zone_dict], snd result)
                    else (fst result, snd result @ [zone_dict]))
      in parse_zone_layers config zone layers result s)"

fun parse_zones_loop ::
  "config \<Rightarrow> zone list \<Rightarrow> zone_dict list \<times> zone_dict list \<Rightarrow> pstate \<Rightarrow>
   (zone_dict list \<times> zone_dict list) \<times> pstate" where
  "parse_zones_loop config [] result s = (result, s)"
| "parse_zones_loop config (zone # zones) result s =
     (if \<not> IsFilled zone \<or> GetIsKeepout zone = Some True \<or> GetIsRuleArea zone = Some True then
        parse_zones_loop config zones result s
      else
        let layers = filter (\<lambda>layer. layer \<in> set [F_Cu, B_Cu]) (zone_GetLayerSet zone);
            (result, s) = parse_zone_layers config zone layers result s
        in parse_zones_loop config zones result s)"

definition parse_zones :: "config \<Rightarrow> zone list \<Rightarrow> pstate \<Rightarrow> zone_dict fb \<times> pstate" where
  "parse_zones config zones s =
     (let (result, s) = parse_zones_loop config zones ([], []) s
      in (\<lparr>F = fst result, B = snd result\<rparr>, s))"

subsection \<open>footprint\_to\_component and parse\<close>

text \<open>The \<^verbatim>\<open>Component\<close> of \<^verbatim>\<open>ecad/common.py\<close>, as the arguments of its constructor.\<close>
record component =
  c_ref :: string
  c_val :: string
  c_footprint :: string
  c_layer :: "string option"
  c_attr :: string
  c_extra_fields :: fields

definition footprint_to_component :: "env \<Rightarrow> footprint \<Rightarrow> fields \<Rightarrow> component" where
  "footprint_to_component e footprint extra_fields' =
     (let footprint_name = GetFPID footprint;
          attr = ''Normal'';
          attr = (case FP_EXCLUDE_FROM_BOM e of
                    Some flag \<Rightarrow>
                      (if and (GetAttributes footprint) flag \<noteq> 0 then ''Virtual'' else attr)
                  | None \<Rightarrow>
                      (case MOD_VIRTUAL e of
                         Some v \<Rightarrow> (if GetAttributes footprint = v then ''Virtual'' else attr)
                       | None \<Rightarrow> attr));
          layer = layer_lookup (fp_GetLayer footprint)
      in \<lparr>c_ref = GetReference footprint, c_val = GetValue footprint,
          c_footprint = footprint_name, c_layer = layer, c_attr = attr,
          c_extra_fields = extra_fields'\<rparr>)"

record edges_bbox =
  minx :: rat
  miny :: rat
  maxx :: rat
  maxy :: rat

record metadata =
  md_title :: string
  md_revision :: string
  md_company :: string
  md_date :: string

text \<open>
  The \<^verbatim>\<open>pcbdata\<close> dictionary; \<^verbatim>\<open>"bom"\<close> is the empty dictionary, and the last three
  keys are set only under the configuration that asks for them.
\<close>
record pcbdata =
  pcb_edges_bbox :: edges_bbox
  pcb_edges :: "drawing_dict list"
  pcb_silkscreen :: "layer_drawing fb"
  pcb_fabrication :: "layer_drawing fb"
  pcb_footprints :: "footprint_dict list"
  pcb_metadata :: metadata
  pcb_font_data :: string
  pcb_tracks :: "track_dict fb option"
  pcb_zones :: "zone_dict fb option"
  pcb_nets :: "string list option"

datatype error = ParsingException string

text \<open>
  The loop of \<^verbatim>\<open>parse\<close> that looks every footprint up in the schematic data, with a
  warning for each one that is missing.
\<close>
fun extra_fields_loop ::
  "(string \<times> fields) list \<Rightarrow> nat list \<Rightarrow> fields list \<Rightarrow> bool \<Rightarrow> pstate \<Rightarrow>
   (fields list \<times> bool) \<times> pstate" where
  "extra_fields_loop extra_field_data [] e' warning_shown s = ((e', warning_shown), s)"
| "extra_fields_loop extra_field_data (f # fs) e' warning_shown s =
     (let ref = GetReference (heap s f);
          e' = e' @ [case map_of extra_field_data ref of Some v \<Rightarrow> v | None \<Rightarrow> []]
      in if map_of extra_field_data ref = None then
           extra_fields_loop extra_field_data fs e' True
             (log WARN (''Component '' @ ref @ '' is missing from schematic data.'') [] s)
         else extra_fields_loop extra_field_data fs e' warning_shown s)"

text \<open>
  \<^verbatim>\<open>parse\<close>, block by block. The first block reads the configuration of the extra
  fields and the netlist file; it raises \<^verbatim>\<open>ParsingException\<close> (\<open>Inl\<close>) or leaves
  \<^verbatim>\<open>extra_field_data\<close> (the second component of what the schematic-data parser
  returned, or \<open>None\<close>) and \<^verbatim>\<open>need_extra_fields\<close>.
\<close>
definition extra_field_block ::
  "env \<Rightarrow> config \<Rightarrow> pstate \<Rightarrow> (error + ((string \<times> fields) list option \<times> bool)) \<times> pstate" where
  "extra_field_block e config s =
     (let need_extra_fields = (extra_fields config \<noteq> [] \<or> board_variant_whitelist config \<noteq> [] \<or>
                               board_variant_blacklist config \<noteq> [] \<or> dnp_field config \<noteq> '''');
          (need_extra_fields, s) =
            (if netlist_file config = '''' \<and> need_extra_fields then
               (False, log WARN (''Ignoring extra fields related config parameters '' @
                                 ''since no netlist/xml file was specified.'') [] s)
             else (need_extra_fields, s));
          extra_field_data = None;
          extra_field_data =
            (if netlist_file config \<noteq> '''' \<and> isfile e (netlist_file config) then
               extra_data_func e (netlist_file config) (normalize_field_case config)
             else extra_field_data)
      in
      if extra_field_data = None \<and> need_extra_fields then
        (Inl (ParsingException (''Failed parsing '' @ netlist_file config)), s)
      else
        let extra_field_data = (case extra_field_data of Some d \<Rightarrow> Some (snd d) | None \<Rightarrow> None)
        in (Inr (extra_field_data, need_extra_fields), s))"

text \<open>The title block: title, revision, company and date, with their fallbacks.\<close>
definition metadata_block :: "env \<Rightarrow> parser \<Rightarrow> metadata" where
  "metadata_block e self =
     (let title_block = GetTitleBlock (brd self);
          title = GetTitle title_block;
          revision = GetRevision title_block;
          company = GetCompany title_block;
          (title, revision, company) =
            (case (GetProject (brd self), ExpandTextVars e) of
               (Some project, Some expand) \<Rightarrow>
                 (expand title project, expand revision project, expand company project)
             | _ \<Rightarrow> (title, revision, company));
          file_date = GetDate title_block;
          file_date = (if file_date = '''' then getmtime_strftime e (file_name self) else file_date);
          pcb_file_name = basename e (file_name self);
          title = (if title = '''' then splitext0 e pcb_file_name else title)
      in \<lparr>md_title = title, md_revision = revision, md_company = company, md_date = file_date\<rparr>)"

text \<open>The \<^verbatim>\<open>pcbdata\<close> dictionary, built once the outline has a bounding box.\<close>
definition pcbdata_block ::
  "env \<Rightarrow> parser \<Rightarrow> drawing_dict list \<Rightarrow> rect \<Rightarrow> metadata \<Rightarrow> pstate \<Rightarrow> pcbdata \<times> pstate" where
  "pcbdata_block e self edges bbox md s =
     (let config = cfg self;
          bbox = \<lparr>minx = of_int (fst (rect_GetPosition bbox)) * (1 / 1000000),
                  miny = of_int (snd (rect_GetPosition bbox)) * (1 / 1000000),
                  maxx = of_int (GetRight e bbox) * (1 / 1000000),
                  maxy = of_int (GetBottom e bbox) * (1 / 1000000)\<rparr>;
          drawings = get_all_drawings self s;
          (silkscreen, s) = parse_drawings_on_layers e drawings F_SilkS B_SilkS s;
          (fabrication, s) = parse_drawings_on_layers e drawings F_Fab B_Fab s;
          (fps, s) = parse_footprints e self s;
          font_data = get_parsed_font e (font_parser s);
          tracks = (if include_tracks config
                    then Some (parse_tracks config (GetTracks (brd self))) else None);
          (zones, s) =
            (if include_tracks config then
               (case Zones (brd self) of
                  Some zs \<Rightarrow> (let (z, s) = parse_zones config zs s in (Some z, s))
                | None \<Rightarrow>
                    (Some \<lparr>F = [], B = []\<rparr>,
                     log INFO ''Zones not supported for KiCad 4, skipping'' [] s))
             else (None, s));
          nets = (case (include_nets config, GetNetInfo (brd self)) of
                    (True, Some net_info) \<Rightarrow> Some (parse_netlist net_info)
                  | _ \<Rightarrow> None)
      in (\<lparr>pcb_edges_bbox = bbox, pcb_edges = edges,
           pcb_silkscreen = silkscreen, pcb_fabrication = fabrication,
           pcb_footprints = fps, pcb_metadata = md,
           pcb_font_data = font_data, pcb_tracks = tracks, pcb_zones = zones,
           pcb_nets = nets\<rparr>, s))"

text \<open>The components, each footprint with its extra fields.\<close>
definition components_block ::
  "env \<Rightarrow> parser \<Rightarrow> (string \<times> fields) list option \<Rightarrow> bool \<Rightarrow> pstate \<Rightarrow>
   component list \<times> pstate" where
  "components_block e self extra_field_data need_extra_fields s =
     (let warning_shown = False;
          ((e', warning_shown), s) =
            (case extra_field_data of
               Some d \<Rightarrow>
                 (if d \<noteq> [] \<and> need_extra_fields
                  then extra_fields_loop d (footprints self) [] warning_shown s
                  else ((replicate (length (footprints self)) [], warning_shown), s))
             | None \<Rightarrow> ((replicate (length (footprints self)) [], warning_shown), s));
          s = (if warning_shown
               then log WARN ''Netlist/xml file is likely out of date.'' [] s else s);
          components = map (\<lambda>(f, ee). footprint_to_component e (heap s f) ee)
                         (zip (footprints self) e')
      in (components, s))"

text \<open>
  \<^verbatim>\<open>parse\<close>. The result is \<open>Inl\<close> of the exception raised, or \<open>Inr\<close> of the pair
  returned: \<^verbatim>\<open>(None, None)\<close> or \<^verbatim>\<open>(pcbdata, components)\<close>.
\<close>
definition parse ::
  "env \<Rightarrow> parser \<Rightarrow> pstate \<Rightarrow> (error + (pcbdata option \<times> component list option)) \<times> pstate" where
  "parse e self s =
     (case extra_field_block e (cfg self) s of
        (Inl exn, s) \<Rightarrow> (Inl exn, s)
      | (Inr (extra_field_data, need_extra_fields), s) \<Rightarrow>
          (let md = metadata_block e self;
               ((edges, bbox), s) = parse_edges e self (brd self) s
           in case bbox of
                None \<Rightarrow>
                  (Inr (None, None),
                   log ERROR (''Please draw pcb outline on the edges '' @
                              ''layer on sheet or any footprint before '' @
                              ''generating BOM.'') [] s)
              | Some bbox \<Rightarrow>
                  (let (pcbdata, s) = pcbdata_block e self edges bbox md s;
                       (components, s) =
                         components_block e self extra_field_data need_extra_fields s
                   in (Inr (Some pcbdata, Some components), s))))"

subsection \<open>What the results are compared with\<close>

text \<open>
  The arc angles as the specification words them: \<open>a1\<close> is the start angle, \<open>a2\<close> is
  \<open>a1\<close> plus the sweep, the two are swapped when the sweep is negative, and the result
  is in degrees, rounded to two decimals.
\<close>
definition spec_arc_angles :: "rat \<Rightarrow> rat \<Rightarrow> rat \<times> rat" where
  "spec_arc_angles start_angle sweep =
     (let a1 = start_angle;
          a2 = a1 + sweep;
          (a1, a2) = (if sweep < 0 then (a2, a1) else (a1, a2))
      in (py_round (a1 * (1 / 10)) 2, py_round (a2 * (1 / 10)) 2))"


text \<open>The dictionary of one track, and the side (front or back list) it goes to.\<close>
definition track_record :: "config \<Rightarrow> track \<Rightarrow> track_dict" where
  "track_record config t =
     (if track_GetClass t = ''VIA'' then
        SegmentT (normalize (track_GetStart t)) (normalize (track_GetEnd t))
          (of_int (track_GetWidth t) * (1 / 1000000)) (Some (track_GetNetname t))
      else if track_GetClass t = ''ARC'' then
        ArcT (normalize (GetCenter t))
          (fst (spec_arc_angles (track_GetArcAngleStart t) (track_GetAngle t)))
          (snd (spec_arc_angles (track_GetArcAngleStart t) (track_GetAngle t)))
          (track_GetRadius t * (1 / 1000000)) (of_int (track_GetWidth t) * (1 / 1000000))
          (if include_nets config then Some (track_GetNetname t) else None)
      else
        SegmentT (normalize (track_GetStart t)) (normalize (track_GetEnd t))
          (of_int (track_GetWidth t) * (1 / 1000000))
          (if include_nets config then Some (track_GetNetname t) else None))"

definition on_side :: "layer \<Rightarrow> track \<Rightarrow> bool" where
  "on_side l t = (if track_GetClass t = ''VIA'' then IsOnLayer t l else track_GetLayer t = l)"

text \<open>The point lists of the outlines before the first one without a point count.\<close>
definition poly_points :: "polygon_set \<Rightarrow> vec2 list list" where
  "poly_points ps =
     map (\<lambda>i. map (\<lambda>j. normalize (CPoint (Outline ps i) j)) [0..<the (PointCount (Outline ps i))])
       (takeWhile (\<lambda>i. PointCount (Outline ps i) \<noteq> None) [0..<OutlineCount ps])"



text \<open>
  The pads of a footprint that parse, each with its name, in the order of the pads;
  and the names alone.
\<close>
definition named_pads :: "env \<Rightarrow> config \<Rightarrow> pstate \<Rightarrow> pad list \<Rightarrow> (string \<times> pad_dict) list" where
  "named_pads e config s ps =
     List.map_filter (\<lambda>p. map_option (Pair (GetPadName p)) (fst (parse_pad e config p s))) ps"

definition parsed_pad_names :: "env \<Rightarrow> pad list \<Rightarrow> string list" where
  "parsed_pad_names e ps =
     map GetPadName (filter (\<lambda>p. pad_shape_lookup e (pad_GetShape p) \<noteq> '''') ps)"



definition footprint_rect :: "env \<Rightarrow> footprint \<Rightarrow> rect" where
  "footprint_rect e fp =
     (case GetFootprintRect e of Some get_rect \<Rightarrow> get_rect fp | None \<Rightarrow> GetBoundingBox_FF e fp)"



text \<open>
  The first pin as the specification words it: the earliest name among the usual
  first-pin names that occur, or else the smallest name of all.
\<close>
definition first_pin_names :: "string list" where
  "first_pin_names = [''1'', ''A'', ''A1'', ''P1'', ''PAD1'']"

definition spec_pin1_name :: "string list \<Rightarrow> string" where
  "spec_pin1_name names =
     (if set names \<inter> set first_pin_names \<noteq> {} then Min (set names \<inter> set first_pin_names)
      else Min (set names))"

definition mark_pin1 :: "string \<Rightarrow> string \<times> pad_dict \<Rightarrow> pad_dict" where
  "mark_pin1 name p = (if fst p = name then (snd p)\<lparr>pd_pin1 := Some 1\<rparr> else snd p)"


definition pin1_count :: "pad_dict list \<Rightarrow> nat" where
  "pin1_count pads = length (filter (\<lambda>d. pd_pin1 d \<noteq> None) pads)"

text \<open>
  Extra field data is asked for; and what the netlist file gives: \<open>None\<close> when no
  file is configured, when it is not a file, or when it does not parse.
\<close>
definition fields_requested :: "config \<Rightarrow> bool" where
  "fields_requested config =
     (extra_fields config \<noteq> [] \<or> board_variant_whitelist config \<noteq> [] \<or>
      board_variant_blacklist config \<noteq> [] \<or> dnp_field config \<noteq> '''')"

definition source_data :: "env \<Rightarrow> config \<Rightarrow> (string list \<times> (string \<times> fields) list) option" where
  "source_data e config =
     (if netlist_file config \<noteq> '''' \<and> isfile e (netlist_file config)
      then extra_data_func e (netlist_file config) (normalize_field_case config) else None)"

definition ignoring_warning :: log_entry where
  "ignoring_warning =
     Log WARN ''Ignoring extra fields related config parameters since no netlist/xml file was specified.'' []"

text \<open>
  The drawings that \<^verbatim>\<open>parse_edges\<close> walks; those of them that are an outline shape:
  on the edge-cuts layer, of a shape class, and parsed; and the boards where no
  item on the edge-cuts layer, shape or text, parses to a drawing.
\<close>
definition all_drawings :: "parser \<Rightarrow> pstate \<Rightarrow> item list" where
  "all_drawings self s =
     GetDrawings (brd self) @ concat (map (\<lambda>f. GraphicalItems (heap s f)) (footprints self))"

definition is_shape_item :: "item \<Rightarrow> bool" where
  "is_shape_item d = (GetClass d \<in> set [''DRAWSEGMENT'', ''MGRAPHIC'', ''PCB_SHAPE''])"

definition outline_shapes :: "env \<Rightarrow> parser \<Rightarrow> pstate \<Rightarrow> item list" where
  "outline_shapes e self s =
     filter (\<lambda>d. item_GetLayer d = Edge_Cuts \<and> is_shape_item d \<and>
                 fst (parse_drawing e d s) \<noteq> None) (all_drawings self s)"

definition no_edge_drawing :: "env \<Rightarrow> parser \<Rightarrow> pstate \<Rightarrow> bool" where
  "no_edge_drawing e self s =
     (\<forall>d\<in>set (all_drawings self s).
        item_GetLayer d = Edge_Cuts \<longrightarrow> fst (parse_drawing e d s) = None)"

definition outline_error :: log_entry where
  "outline_error =
     Log ERROR ''Please draw pcb outline on the edges layer on sheet or any footprint before generating BOM.'' []"

text \<open>The net name of a zone dictionary is the one the configuration allows.\<close>
definition zone_net_ok :: "config \<Rightarrow> zone list \<Rightarrow> zone_dict \<Rightarrow> bool" where
  "zone_net_ok config zones d =
     (if include_nets config then \<exists>z\<in>set zones. z_net d = Some (zone_GetNetname z)
      else z_net d = None)"

subsection \<open>A small board\<close>

text \<open>
  A host with every optional feature, a board of one footprint \<open>U1\<close> at (3 mm, 4 mm),
  turned by 90 degrees, with one copper arc (start 45 degrees, sweep -90 degrees)
  and pads of the given names, one millimetre apart; the store holds the footprint
  at address 0.
\<close>
definition ex_env :: env where
  "ex_env = \<lparr>has_PAD_SHAPE_ROUNDRECT = True, has_PAD_SHAPE_CUSTOM = True,
     has_PAD_SHAPE_CHAMFERED_RECT = True, FP_EXCLUDE_FROM_BOM = Some 2, MOD_VIRTUAL = None,
     ExpandTextVars = None, Merge = (\<lambda>a b. a), Normalize = (\<lambda>a. a),
     GetRight = (\<lambda>r. fst (rect_GetPosition r) + fst (rect_GetSize r)),
     GetBottom = (\<lambda>r. snd (rect_GetPosition r) + snd (rect_GetSize r)),
     GetFootprintRect = Some (\<lambda>fp. \<lparr>rect_GetPosition = fp_GetPosition fp,
                                       rect_GetSize = (2000000, 1000000)\<rparr>),
     GetBoundingBox_FF = (\<lambda>fp. \<lparr>rect_GetPosition = (0, 0), rect_GetSize = (0, 0)\<rparr>),
     isfile = (\<lambda>p. False), basename = (\<lambda>p. p), splitext0 = (\<lambda>p. p),
     getmtime_strftime = (\<lambda>p. ''2020-01-01 00:00:00''), create_path = (\<lambda>ls. ''''),
     get_parsed_font = (\<lambda>ss. ''''), extra_data_func = (\<lambda>p b. None)\<rparr>"

definition ex_shape :: "shape_t \<Rightarrow> pcb_shape" where
  "ex_shape t = \<lparr>GetShape = t, GetStart = (0, 0), GetEnd = (10000000, 5000000),
     GetWidth = 100000, GetRadius = 1000000, GetArcAngleStart = 450, GetAngle = - 900,
     GetPolyShape = None, GetParentFootprint = None, GetBezControl1 = (0, 0),
     GetBezControl2 = (0, 0)\<rparr>"

definition ex_item :: "layer \<Rightarrow> shape_t \<Rightarrow> item" where
  "ex_item l t = \<lparr>item_GetLayer = l,
     item_GetBoundingBox = \<lparr>rect_GetPosition = (0, 0), rect_GetSize = (10000000, 5000000)\<rparr>,
     body = PCB_SHAPE (ex_shape t)\<rparr>"


definition ex_text :: "string \<Rightarrow> item" where
  "ex_text t = \<lparr>item_GetLayer = F_SilkS,
     item_GetBoundingBox = \<lparr>rect_GetPosition = (0, 0), rect_GetSize = (0, 0)\<rparr>,
     body = MTEXT \<lparr>text_GetPosition = (0, 0), IsVisible = False, GetTextThickness = 0,
       TransformToSegmentList = None, GetDrawRotation = 0, GetTextAngle = 0, GetTextHeight = 0,
       GetTextWidth = 0, GetShownText = None, GetText = t, IsMirrored = False, IsItalic = False,
       IsBold = False, GetHorizJustify = 0, GetVertJustify = 0\<rparr>\<rparr>"

text \<open>A visible text on the edge-cuts layer.\<close>
definition ex_edge_text :: item where
  "ex_edge_text = \<lparr>item_GetLayer = Edge_Cuts,
     item_GetBoundingBox = \<lparr>rect_GetPosition = (0, 0), rect_GetSize = (5000000, 1000000)\<rparr>,
     body = PTEXT \<lparr>text_GetPosition = (0, 0), IsVisible = True, GetTextThickness = 150000,
       TransformToSegmentList = None, GetDrawRotation = 0, GetTextAngle = 0,
       GetTextHeight = 1000000, GetTextWidth = 1000000, GetShownText = None, GetText = ''REV A'',
       IsMirrored = False, IsItalic = False, IsBold = False, GetHorizJustify = 0,
       GetVertJustify = 0\<rparr>\<rparr>"

definition ex_outline :: "nat option \<Rightarrow> outline" where
  "ex_outline n = \<lparr>PointCount = n, CPoint = (\<lambda>j. (int j * 1000000, 0))\<rparr>"

text \<open>Two outlines, of two points and of one; on a legacy host the second has no point count.\<close>
definition ex_polygon_set :: "bool \<Rightarrow> polygon_set" where
  "ex_polygon_set legacy =
     \<lparr>OutlineCount = 2,
      Outline = (\<lambda>i. if i = 0 then ex_outline (Some 2)
                      else ex_outline (if legacy then None else Some 1)),
      HasHoles = False, IsSelfIntersecting = False\<rparr>"

definition ex_pad :: "string \<Rightarrow> int \<Rightarrow> pad" where
  "ex_pad name x = \<lparr>GetPadName = name, pad_GetLayerSet = [F_Cu], pad_GetPosition = (x, 0),
     pad_GetSize = (1000000, 1000000), pad_GetOrientation = 0, pad_GetShape = PAD_SHAPE_RECT,
     GetCustomShapeAsPolygon = \<lparr>OutlineCount = 0,
       Outline = (\<lambda>i. \<lparr>PointCount = Some 0, CPoint = (\<lambda>j. (0, 0))\<rparr>),
       HasHoles = False, IsSelfIntersecting = False\<rparr>,
     GetRoundRectCornerRadius = 0, GetChamferPositions = 0, GetChamferRectRatio = 0,
     GetAttribute = PAD_ATTRIB_SMD, GetDrillShape = PAD_DRILL_SHAPE_CIRCLE,
     GetDrillSize = (0, 0), GetOffset = None, pad_GetNetname = ''GND''\<rparr>"

definition ex_footprint :: "string list \<Rightarrow> footprint" where
  "ex_footprint names = \<lparr>GetReference = ''U1'', GetValue = ''IC'',
     fp_GetPosition = (3000000, 4000000), fp_GetOrientation = 900,
     GraphicalItems = [ex_item F_Cu S_ARC],
     Pads = map (\<lambda>(n, i). ex_pad n (int i * 1000000)) (zip names [0..<length names]),
     fp_GetLayer = F_Cu, Reference = ex_text ''U1'', Value = ex_text ''IC'',
     GetFPID = ''SOIC-8'', GetAttributes = 0\<rparr>"

definition ex_state :: "string list \<Rightarrow> pstate" where
  "ex_state names = \<lparr>logger = [], font_parser = [], heap = (\<lambda>a. ex_footprint names),
     next_free = 1\<rparr>"

definition ex_config :: "string list \<Rightarrow> string \<Rightarrow> config" where
  "ex_config flds file = \<lparr>extra_fields = flds, board_variant_whitelist = [],
     board_variant_blacklist = [], dnp_field = '''', netlist_file = file,
     normalize_field_case = False, include_tracks = False, include_nets = False\<rparr>"

definition ex_board :: "item list \<Rightarrow> board" where
  "ex_board ds = \<lparr>GetDrawings = ds,
     GetTitleBlock = \<lparr>GetTitle = ''demo'', GetRevision = ''1'', GetCompany = '''',
       GetDate = ''2020-01-01''\<rparr>,
     GetProject = None, GetTracks = [], Zones = None, GetNetInfo = None\<rparr>"

definition ex_parser :: "config \<Rightarrow> item list \<Rightarrow> parser" where
  "ex_parser c ds = \<lparr>file_name = ''demo.kicad_pcb'', cfg = c, brd = ex_board ds,
     footprints = [0]\<rparr>"

definition ex_track :: "string \<Rightarrow> layer \<Rightarrow> track" where
  "ex_track cls l = \<lparr>track_GetClass = cls, track_GetStart = (0, 0), track_GetEnd = (1000000, 0),
     track_GetWidth = 200000, track_GetNetname = ''GND'', IsOnLayer = (\<lambda>x. True),
     track_GetLayer = l, track_GetArcAngleStart = 450, track_GetAngle = - 900,
     GetCenter = (0, 0), track_GetRadius = 1000000\<rparr>"


definition ex_zone :: zone where
  "ex_zone = \<lparr>IsFilled = True, GetIsKeepout = None, GetIsRuleArea = Some False,
     zone_GetLayerSet = [F_Cu, B_Cu], GetFilledPolysList = Inr (\<lambda>l. ex_polygon_set False),
     GetMinThickness = 250000, GetFilledPolysUseThickness = Some False,
     zone_GetNetname = ''GND''\<rparr>"

section \<open>Properties\<close>

subsection \<open>The net list\<close>

text \<open>
  C5. For every net-info input, \<open>parse_netlist\<close> returns the net names as a list of
  strings that is strictly increasing in the lexicographic order (sorted ascending,
  no duplicates), and it holds exactly the keys of \<open>NetsByName\<close>.
\<close>
theorem parse_netlist_strictly_sorted:
  "sorted_wrt (<) (parse_netlist net_info) \<and>
   set (parse_netlist net_info) = fst ` set (DAList.impl_of (NetsByName net_info))"
  by (simp add: parse_netlist_def strict_sorted_iff)

subsection \<open>Rounding\<close>



subsection \<open>Tracks\<close>

lemma parse_tracks_loop_map_filter:
  "parse_tracks_loop config ts acc =
     (fst acc @ map (track_record config) (filter (on_side F_Cu) ts),
      snd acc @ map (track_record config) (filter (on_side B_Cu) ts))"
proof (induction ts arbitrary: acc)
  case Nil
  show ?case by simp
next
  case (Cons t ts)
  show ?case
    by (simp add: Cons.IH Let_def track_record_def on_side_def spec_arc_angles_def split: prod.splits)
qed

lemma parse_tracks_map_filter:
  "parse_tracks config ts =
     \<lparr>F = map (track_record config) (filter (on_side F_Cu) ts),
      B = map (track_record config) (filter (on_side B_Cu) ts)\<rparr>"
  by (simp add: parse_tracks_def parse_tracks_loop_map_filter Let_def)

subsection \<open>Polygon sets and pads\<close>

lemma heap_log [simp]: "heap (log lv m a s) = heap s"
  and next_free_log [simp]: "next_free (log lv m a s) = next_free s"
  and font_parser_log [simp]: "font_parser (log lv m a s) = font_parser s"
  by (simp_all add: log_def)

lemma parse_poly_set_loop_takeWhile:
  "parse_poly_set_loop ps idxs acc s =
     (acc @ map (\<lambda>i. map (\<lambda>j. normalize (CPoint (Outline ps i) j)) [0..<the (PointCount (Outline ps i))])
              (takeWhile (\<lambda>i. PointCount (Outline ps i) \<noteq> None) idxs),
      if \<forall>i\<in>set idxs. PointCount (Outline ps i) \<noteq> None then s
      else log WARN ''No PointCount method on outline object. Unpatched kicad version?'' [] s)"
  by (induction idxs arbitrary: acc) (auto simp: Let_def split: option.splits)

lemma fst_parse_poly_set: "fst (parse_poly_set ps s) = poly_points ps"
  by (simp add: parse_poly_set_def parse_poly_set_loop_takeWhile poly_points_def del: not_None_eq)

lemma heap_parse_poly_set [simp]: "heap (snd (parse_poly_set ps s)) = heap s"
  and next_free_parse_poly_set [simp]: "next_free (snd (parse_poly_set ps s)) = next_free s"
  by (simp_all add: parse_poly_set_def parse_poly_set_loop_takeWhile del: not_None_eq)

lemma pad_custom_block_fst:
  "fst (pad_custom_block p shape d s) =
     (if shape = ''custom'' then d\<lparr>pd_polygons := Some (poly_points (GetCustomShapeAsPolygon p))\<rparr>
      else d)"
  by (simp add: pad_custom_block_def Let_def split_beta fst_parse_poly_set)

lemma heap_pad_custom_block [simp]: "heap (snd (pad_custom_block p shape d s)) = heap s"
  and next_free_pad_custom_block [simp]: "next_free (snd (pad_custom_block p shape d s)) = next_free s"
  by (simp_all add: pad_custom_block_def Let_def split_beta)

lemma pad_blocks_keep [simp]:
  "pd_net (fst (pad_custom_block p shape d s)) = pd_net d"
  "pd_pin1 (fst (pad_custom_block p shape d s)) = pd_pin1 d"
  "pd_pos (fst (pad_custom_block p shape d s)) = pd_pos d"
  "pd_net (pad_corner_block p shape d) = pd_net d"
  "pd_pin1 (pad_corner_block p shape d) = pd_pin1 d"
  "pd_pos (pad_corner_block p shape d) = pd_pos d"
  "pd_net (pad_hole_block p d) = pd_net d"
  "pd_pin1 (pad_hole_block p d) = pd_pin1 d"
  "pd_pos (pad_hole_block p d) = pd_pos d"
  "pd_pin1 (pad_offset_net_block config p d) = pd_pin1 d"
  "pd_pos (pad_offset_net_block config p d) = pd_pos d"
  by (simp_all add: pad_custom_block_fst pad_corner_block_def pad_hole_block_def
        pad_offset_net_block_def Let_def split: option.splits)

lemma pd_net_pad_offset_net_block [simp]:
  "pd_net (pad_offset_net_block config p d) =
     (if include_nets config then Some (pad_GetNetname p) else pd_net d)"
  by (simp add: pad_offset_net_block_def Let_def split: option.splits)

lemma parse_pad_skip:
  "pad_shape_lookup e (pad_GetShape p) = '''' \<Longrightarrow>
   parse_pad e config p s =
     (None, log INFO ''Unsupported pad shape %s, skipping.'' [ArgPadShape (pad_GetShape p)] s)"
  by (simp add: parse_pad_def Let_def)

lemma parse_pad_parsed:
  assumes "pad_shape_lookup e (pad_GetShape p) \<noteq> ''''"
  shows "\<exists>d. fst (parse_pad e config p s) = Some d \<and>
     pd_net d = (if include_nets config then Some (pad_GetNetname p) else None) \<and>
     pd_pin1 d = None \<and> pd_pos d = normalize (pad_GetPosition p)"
  using assms by (simp add: parse_pad_def Let_def split_beta)

lemma heap_parse_pad [simp]: "heap (snd (parse_pad e config p s)) = heap s"
  and next_free_parse_pad [simp]: "next_free (snd (parse_pad e config p s)) = next_free s"
  by (simp_all add: parse_pad_def Let_def split_beta)

lemma fst_parse_pad_state: "fst (parse_pad e config p s) = fst (parse_pad e config p s')"
  by (simp add: parse_pad_def Let_def split_beta pad_custom_block_fst)

subsection \<open>Drawings\<close>

lemma heap_parse_font [simp]: "heap (parse_font_for_string t s) = heap s"
  and next_free_parse_font [simp]: "next_free (parse_font_for_string t s) = next_free s"
  by (simp_all add: parse_font_for_string_def)

lemma heap_parse_shape [simp]: "heap (snd (parse_shape d s)) = heap s"
  and next_free_parse_shape [simp]: "next_free (snd (parse_shape d s)) = next_free s"
  by (simp_all add: parse_shape_def Let_def split_beta split: option.splits)

lemma heap_parse_text [simp]: "heap (snd (parse_text e c d s)) = heap s"
  and next_free_parse_text [simp]: "next_free (snd (parse_text e c d s)) = next_free s"
  by (simp_all add: parse_text_def Let_def split_beta split: option.splits)

lemma heap_parse_drawing [simp]: "heap (snd (parse_drawing e d s)) = heap s"
  and next_free_parse_drawing [simp]: "next_free (snd (parse_drawing e d s)) = next_free s"
  by (simp_all add: parse_drawing_def split: item_body.splits)


lemma fst_parse_text_state: "fst (parse_text e c d s) = fst (parse_text e c d s')"
  by (simp add: parse_text_def Let_def split_beta split: option.splits)


lemma parse_shape_None_state:
  "(fst (parse_shape d s) = None) = (fst (parse_shape d s') = None)"
  by (simp add: parse_shape_def Let_def split_beta split: option.splits)

lemma parse_drawing_None_state:
  "(fst (parse_drawing e d s) = None) = (fst (parse_drawing e d s') = None)"
  by (auto simp: parse_drawing_def fst_parse_text_state[of e _ _ s s']
      parse_shape_None_state[of _ s s'] split: item_body.splits)

subsection \<open>Iterating over drawings\<close>

lemma parse_drawing_eqD:
  "parse_drawing e d s = (r, s1) \<Longrightarrow> heap s1 = heap s \<and> next_free s1 = next_free s"
  by (metis heap_parse_drawing next_free_parse_drawing snd_conv)

lemma heap_parse_edges_loop [simp]:
  "heap (snd (parse_edges_loop e ds edges bbox s)) = heap s"
  by (induction ds arbitrary: edges bbox s)
     (auto split: prod.splits option.splits dest!: parse_drawing_eqD)

lemma next_free_parse_edges_loop [simp]:
  "next_free (snd (parse_edges_loop e ds edges bbox s)) = next_free s"
  by (induction ds arbitrary: edges bbox s)
     (auto split: prod.splits option.splits dest!: parse_drawing_eqD)

lemma parse_edges_loop_no_shape:
  assumes "\<forall>d\<in>set ds. item_GetLayer d = Edge_Cuts \<longrightarrow> (\<forall>s. fst (parse_drawing e d s) = None)"
  shows "fst (parse_edges_loop e ds edges bbox s) = (edges, bbox)"
  using assms
proof (induction ds arbitrary: s)
  case Nil
  show ?case by simp
next
  case (Cons d ds)
  show ?case
  proof (cases "item_GetLayer d = Edge_Cuts")
    case True
    with Cons.prems have "fst (parse_drawing e d s) = None" by simp
    then obtain s1 where "parse_drawing e d s = (None, s1)"
      by (cases "parse_drawing e d s") auto
    with True Cons show ?thesis by simp
  next
    case False
    with Cons show ?thesis by simp
  qed
qed

lemma parse_edges_loop_keeps_bbox:
  "\<exists>y. snd (fst (parse_edges_loop e ds edges (Some b) s)) = Some y"
  by (induction ds arbitrary: edges b s) (auto split: prod.splits option.splits)

lemma parse_edges_loop_some_shape:
  assumes "d \<in> set ds" "item_GetLayer d = Edge_Cuts" "fst (parse_drawing e d s0) \<noteq> None"
  shows "\<exists>y. snd (fst (parse_edges_loop e ds edges bbox s)) = Some y"
  using assms
proof (induction ds arbitrary: edges bbox s)
  case Nil
  then show ?case by simp
next
  case (Cons x xs)
  show ?case
  proof (cases "x = d")
    case True
    from Cons.prems(3) have "fst (parse_drawing e d s) \<noteq> None"
      using parse_drawing_None_state[of e d s0 s] by simp
    then obtain r s1 where "parse_drawing e d s = (Some r, s1)"
      by (cases "parse_drawing e d s") auto
    with True Cons.prems(2) show ?thesis
      by (auto intro: parse_edges_loop_keeps_bbox split: option.splits)
  next
    case False
    with Cons.prems have "d \<in> set xs" by simp
    from Cons.IH[OF this Cons.prems(2,3)] show ?thesis
      by (auto split: prod.splits option.splits)
  qed
qed

lemma heap_parse_drawings_on_layers_loop [simp]:
  "heap (snd (parse_drawings_on_layers_loop e ds fl bl fr bk s)) = heap s"
  by (induction ds arbitrary: fr bk s)
     (auto simp: Let_def split: prod.splits option.splits dest!: parse_drawing_eqD)

lemma next_free_parse_drawings_on_layers_loop [simp]:
  "next_free (snd (parse_drawings_on_layers_loop e ds fl bl fr bk s)) = next_free s"
  by (induction ds arbitrary: fr bk s)
     (auto simp: Let_def split: prod.splits option.splits dest!: parse_drawing_eqD)

subsection \<open>Pads and drawings of a footprint\<close>

lemma parse_pad_eqD:
  "parse_pad e c p s = (r, s1) \<Longrightarrow> heap s1 = heap s \<and> next_free s1 = next_free s"
  by (metis heap_parse_pad next_free_parse_pad snd_conv)

lemma map_filter_Cons:
  "List.map_filter g (x # xs) = (case g x of None \<Rightarrow> List.map_filter g xs | Some y \<Rightarrow> y # List.map_filter g xs)"
  by (simp add: List.map_filter_def split: option.splits)

lemma map_filter_Nil [simp]: "List.map_filter g [] = []"
  by (simp add: List.map_filter_def)

lemma footprint_pads_loop_named:
  "fst (footprint_pads_loop e c ps acc s) = acc @ named_pads e c s0 ps"
proof (induction ps arbitrary: acc s)
  case Nil
  show ?case by (simp add: named_pads_def)
next
  case (Cons p ps)
  obtain r s1 where r: "parse_pad e c p s = (r, s1)" by (cases "parse_pad e c p s") auto
  then have "fst (parse_pad e c p s0) = r"
    using fst_parse_pad_state[of e c p s0 s] by simp
  with r Cons.IH show ?case
    by (cases r) (simp_all add: named_pads_def map_filter_Cons)
qed

lemma heap_footprint_pads_loop [simp]:
  "heap (snd (footprint_pads_loop e c ps acc s)) = heap s"
  by (induction ps arbitrary: acc s) (auto split: prod.splits option.splits dest!: parse_pad_eqD)

lemma next_free_footprint_pads_loop [simp]:
  "next_free (snd (footprint_pads_loop e c ps acc s)) = next_free s"
  by (induction ps arbitrary: acc s) (auto split: prod.splits option.splits dest!: parse_pad_eqD)

lemma heap_footprint_drawings_loop [simp]:
  "heap (snd (footprint_drawings_loop e ds acc s)) = heap s"
  by (induction ds arbitrary: acc s) (auto split: prod.splits option.splits dest!: parse_drawing_eqD)

lemma next_free_footprint_drawings_loop [simp]:
  "next_free (snd (footprint_drawings_loop e ds acc s)) = next_free s"
  by (induction ds arbitrary: acc s) (auto split: prod.splits option.splits dest!: parse_drawing_eqD)


subsection \<open>Footprints and the store\<close>




lemma next_free_parse_footprint [simp]:
  "next_free (snd (parse_footprint e c f s)) = Suc (next_free s)"
  by (simp add: parse_footprint_def FOOTPRINT_def SetOrientation_def SetPosition_def
      Let_def split_beta)

lemma heap_parse_footprint:
  "a \<noteq> next_free s \<Longrightarrow> heap (snd (parse_footprint e c f s)) a = heap s a"
  by (simp add: parse_footprint_def FOOTPRINT_def SetOrientation_def SetPosition_def
      Let_def split_beta)



lemma parse_footprints_loop_frame:
  "next_free s \<le> next_free (snd (parse_footprints_loop e c fs acc s)) \<and>
   (\<forall>a<next_free s. heap (snd (parse_footprints_loop e c fs acc s)) a = heap s a)"
proof (induction fs arbitrary: acc s)
  case Nil
  show ?case by simp
next
  case (Cons f fs)
  from Cons.IH[where acc = "acc @ [fst (parse_footprint e c f s)]"
      and s = "snd (parse_footprint e c f s)"]
  show ?case by (simp add: split_beta heap_parse_footprint)
qed

subsection \<open>The first pin\<close>

lemma sorted_nth0_Min:
  fixes ys :: "'a::linorder list"
  assumes "sorted ys" "ys \<noteq> []"
  shows "ys ! 0 = Min (set ys)"
proof (cases ys)
  case Nil
  with assms show ?thesis by simp
next
  case (Cons y ys')
  with assms have "\<forall>z\<in>set ys'. y \<le> z" by simp
  then have "Min (set (y # ys')) = y" by (intro Min_eqI) auto
  with Cons show ?thesis by simp
qed

lemma fst_nth0_sorted_Min:
  assumes "sorted (map fst xs)" "xs \<noteq> []"
  shows "fst (xs ! 0) = Min (fst ` set xs)"
proof -
  have "map fst xs ! 0 = Min (set (map fst xs))"
    by (rule sorted_nth0_Min) (use assms in auto)
  moreover have "map fst xs ! 0 = fst (xs ! 0)" using assms(2) by (cases xs) auto
  ultimately show ?thesis by simp
qed

lemma sorted_map_filter: "sorted (map f xs) \<Longrightarrow> sorted (map f (filter P xs))"
  by (induction xs) auto

lemma guess_pin1_spec:
  assumes "pads \<noteq> []"
  shows "guess_pin1 pads =
     map (mark_pin1 (spec_pin1_name (map fst pads))) (sort_key fst pads)"
proof -
  let ?sp = "sort_key fst pads"
  let ?P = "\<lambda>p. fst p \<in> set [''1'', ''A'', ''A1'', ''P1'', ''PAD1'']"
  let ?pin = "filter ?P ?sp"
  have sp: "sorted (map fst ?sp)" "?sp \<noteq> []" "set ?sp = set pads"
    using assms by (simp_all add: sorted_sort_key)
      (metis length_0_conv length_sort)
  have img: "fst ` set ?pin = set (map fst pads) \<inter> set first_pin_names"
    by (auto simp: first_pin_names_def)
  have name: "(if ?pin \<noteq> [] then fst (?pin ! 0) else fst (?sp ! 0)) = spec_pin1_name (map fst pads)"
  proof (cases "?pin = []")
    case True
    then have "set (map fst pads) \<inter> set first_pin_names = {}"
      using img by (metis image_is_empty set_empty)
    moreover have "fst (?sp ! 0) = Min (set (map fst pads))"
      using fst_nth0_sorted_Min[OF sp(1,2)] sp(3) by simp
    ultimately show ?thesis using True by (simp add: spec_pin1_name_def)
  next
    case False
    then have ne: "set (map fst pads) \<inter> set first_pin_names \<noteq> {}"
      using img by (metis image_is_empty set_empty)
    have "fst (?pin ! 0) = Min (fst ` set ?pin)"
      by (rule fst_nth0_sorted_Min) (use sp(1) False in \<open>auto intro: sorted_map_filter\<close>)
    with ne False img show ?thesis by (simp add: spec_pin1_name_def)
  qed
  have "guess_pin1 pads =
     map snd (map (\<lambda>(pad_name, pad_dict).
        if pad_name = (if ?pin \<noteq> [] then fst (?pin ! 0) else fst (?sp ! 0))
        then (pad_name, pad_dict\<lparr>pd_pin1 := Some 1\<rparr>) else (pad_name, pad_dict)) ?sp)"
    using assms by (simp add: guess_pin1_def Let_def)
  also have "\<dots> = map (mark_pin1 (spec_pin1_name (map fst pads))) ?sp"
    unfolding name by (simp add: mark_pin1_def split_beta)
  finally show ?thesis .
qed

lemma guess_pin1_Nil [simp]: "guess_pin1 [] = []"
  by (simp add: guess_pin1_def)

lemma spec_pin1_name_in:
  assumes "names \<noteq> []"
  shows "spec_pin1_name names \<in> set names"
proof (cases "set names \<inter> set first_pin_names = {}")
  case True
  then show ?thesis using assms by (simp add: spec_pin1_name_def)
next
  case False
  then have "Min (set names \<inter> set first_pin_names) \<in> set names \<inter> set first_pin_names"
    by (intro Min_in) auto
  with False show ?thesis by (simp add: spec_pin1_name_def)
qed

lemma named_pads_pin1_None:
  "p \<in> set (named_pads e c s ps) \<Longrightarrow> pd_pin1 (snd p) = None"
proof (induction ps)
  case Nil
  then show ?case by (simp add: named_pads_def)
next
  case (Cons q ps)
  show ?case
  proof (cases "pad_shape_lookup e (pad_GetShape q) = ''''")
    case True
    then have "named_pads e c s (q # ps) = named_pads e c s ps"
      by (simp add: named_pads_def map_filter_Cons parse_pad_skip)
    with Cons show ?thesis by simp
  next
    case False
    from parse_pad_parsed[OF this, of c s] obtain d where
      d: "fst (parse_pad e c q s) = Some d" "pd_pin1 d = None" by auto
    then have "named_pads e c s (q # ps) = (GetPadName q, d) # named_pads e c s ps"
      by (simp add: named_pads_def map_filter_Cons)
    with Cons d show ?thesis by auto
  qed
qed

lemma pin1_count_marked:
  assumes "\<forall>p\<in>set xs. pd_pin1 (snd p) = None"
  shows "pin1_count (map (mark_pin1 n) xs) = length (filter (\<lambda>p. fst p = n) xs)"
  using assms by (induction xs) (auto simp: pin1_count_def mark_pin1_def)

lemma length_filter_sort_key:
  "length (filter (\<lambda>p. f p = k) (sort_key f xs)) = length (filter (\<lambda>p. f p = k) xs)"
  by (simp add: sort_key_stable)

lemma length_filter_fst_count:
  "length (filter (\<lambda>p. fst p = n) xs) = count_list (map fst xs) n"
  by (induction xs) auto

lemma count_list_distinct_le1: "distinct ys \<Longrightarrow> count_list ys n \<le> 1"
  by (induction ys) (auto simp: count_list_0_iff)

lemma fd_pads_parse_footprint:
  "fd_pads (fst (parse_footprint e c f s)) = guess_pin1 (named_pads e c s (Pads (heap s f)))"
  by (simp add: parse_footprint_def Let_def split_beta FOOTPRINT_def SetOrientation_def
      SetPosition_def footprint_pads_loop_named[where ?s0.0 = s])

subsection \<open>What parse changes\<close>

lemma extra_field_block_cases:
  "extra_field_block e config s =
     (if fields_requested config \<and> netlist_file config = '''' then
        (Inr (None, False),
         log WARN (''Ignoring extra fields related config parameters '' @
                   ''since no netlist/xml file was specified.'') [] s)
      else if fields_requested config \<and> source_data e config = None then
        (Inl (ParsingException (''Failed parsing '' @ netlist_file config)), s)
      else (Inr (map_option snd (source_data e config), fields_requested config), s))"
  unfolding extra_field_block_def fields_requested_def source_data_def Let_def
  by (auto split: option.splits)

lemma heap_extra_field_block [simp]:
  "heap (snd (extra_field_block e config s)) = heap s"
  and next_free_extra_field_block [simp]:
  "next_free (snd (extra_field_block e config s)) = next_free s"
  by (simp_all add: extra_field_block_cases)

lemma heap_parse_edges [simp]: "heap (snd (parse_edges e self pcb s)) = heap s"
  and next_free_parse_edges [simp]: "next_free (snd (parse_edges e self pcb s)) = next_free s"
  by (simp_all add: parse_edges_def Let_def split_beta)

lemma heap_parse_drawings_on_layers [simp]:
  "heap (snd (parse_drawings_on_layers e ds fl bl s)) = heap s"
  and next_free_parse_drawings_on_layers [simp]:
  "next_free (snd (parse_drawings_on_layers e ds fl bl s)) = next_free s"
  by (simp_all add: parse_drawings_on_layers_def)

lemma heap_parse_zone_layers [simp]:
  "heap (snd (parse_zone_layers c z ls acc s)) = heap s"
  by (induction ls arbitrary: acc s) (simp_all add: Let_def split_beta)

lemma next_free_parse_zone_layers [simp]:
  "next_free (snd (parse_zone_layers c z ls acc s)) = next_free s"
  by (induction ls arbitrary: acc s) (simp_all add: Let_def split_beta)

lemma heap_parse_zones_loop [simp]:
  "heap (snd (parse_zones_loop c zs acc s)) = heap s"
  by (induction zs arbitrary: acc s) (simp_all add: Let_def split_beta)

lemma next_free_parse_zones_loop [simp]:
  "next_free (snd (parse_zones_loop c zs acc s)) = next_free s"
  by (induction zs arbitrary: acc s) (simp_all add: Let_def split_beta)

lemma heap_parse_zones [simp]: "heap (snd (parse_zones c zs s)) = heap s"
  and next_free_parse_zones [simp]: "next_free (snd (parse_zones c zs s)) = next_free s"
  by (simp_all add: parse_zones_def Let_def split_beta)

lemma heap_extra_fields_loop [simp]:
  "heap (snd (extra_fields_loop d fs acc w s)) = heap s"
  by (induction fs arbitrary: acc w s) (simp_all add: Let_def)

lemma next_free_extra_fields_loop [simp]:
  "next_free (snd (extra_fields_loop d fs acc w s)) = next_free s"
  by (induction fs arbitrary: acc w s) (simp_all add: Let_def)

lemma heap_components_block [simp]:
  "heap (snd (components_block e self d need s)) = heap s"
  and next_free_components_block [simp]:
  "next_free (snd (components_block e self d need s)) = next_free s"
  by (simp_all add: components_block_def Let_def split_beta split: option.splits)

lemma parse_footprints_frame:
  "n \<le> next_free s \<Longrightarrow> n \<le> next_free (snd (parse_footprints e self s))"
  "a < next_free s \<Longrightarrow> heap (snd (parse_footprints e self s)) a = heap s a"
  using parse_footprints_loop_frame[of s e "cfg self" "footprints self" "[]"]
  by (simp_all add: parse_footprints_def)

lemma pcbdata_block_frame:
  "n \<le> next_free s \<Longrightarrow> n \<le> next_free (snd (pcbdata_block e self edges bbox md s))"
  "a < next_free s \<Longrightarrow> heap (snd (pcbdata_block e self edges bbox md s)) a = heap s a"
  by (auto simp: pcbdata_block_def Let_def split_beta parse_footprints_frame(2)
      intro!: parse_footprints_frame(1) split: option.splits)

lemma parse_frame:
  "next_free s \<le> next_free (snd (parse e self s))"
  "a < next_free s \<Longrightarrow> heap (snd (parse e self s)) a = heap s a"
proof -
  have "next_free s \<le> next_free (snd (parse e self s)) \<and>
        (a < next_free s \<longrightarrow> heap (snd (parse e self s)) a = heap s a)"
  proof (cases "extra_field_block e (cfg self) s")
    case (Pair r s1)
    then have s1: "heap s1 = heap s" "next_free s1 = next_free s"
      by (metis heap_extra_field_block snd_conv, metis next_free_extra_field_block snd_conv)
    show ?thesis
    proof (cases r)
      case (Inl exn)
      with Pair s1 show ?thesis by (simp add: parse_def)
    next
      case (Inr x)
      obtain d need where x: "x = (d, need)" by (cases x)
      obtain edges bbox s2 where pe: "parse_edges e self (brd self) s1 = ((edges, bbox), s2)"
        by (cases "parse_edges e self (brd self) s1") auto
      then have s2: "heap s2 = heap s" "next_free s2 = next_free s"
        using s1 by (metis heap_parse_edges snd_conv, metis next_free_parse_edges snd_conv)
      show ?thesis
      proof (cases bbox)
        case None
        with Pair Inr x pe s2 show ?thesis by (simp add: parse_def Let_def)
      next
        case (Some b)
        have "next_free s2 \<le> next_free (snd (pcbdata_block e self edges b (metadata_block e self) s2))"
          "a < next_free s2 \<Longrightarrow>
             heap (snd (pcbdata_block e self edges b (metadata_block e self) s2)) a = heap s2 a"
          by (rule pcbdata_block_frame, simp, rule pcbdata_block_frame)
        with Pair Inr x pe s2 Some show ?thesis
          by (simp add: parse_def Let_def split_beta)
      qed
    qed
  qed
  then show "next_free s \<le> next_free (snd (parse e self s))"
    "a < next_free s \<Longrightarrow> heap (snd (parse e self s)) a = heap s a" by auto
qed

subsection \<open>Outline and extra field data\<close>

lemma map_fst_named_pads: "map fst (named_pads e c s ps) = parsed_pad_names e ps"
proof (induction ps)
  case Nil
  show ?case by (simp add: named_pads_def parsed_pad_names_def)
next
  case (Cons q ps)
  show ?case
  proof (cases "pad_shape_lookup e (pad_GetShape q) = ''''")
    case True
    with Cons show ?thesis
      by (simp add: named_pads_def parsed_pad_names_def map_filter_Cons parse_pad_skip)
  next
    case False
    from parse_pad_parsed[OF this, of c s] obtain d where "fst (parse_pad e c q s) = Some d"
      by auto
    with False Cons show ?thesis
      by (simp add: named_pads_def parsed_pad_names_def map_filter_Cons)
  qed
qed

lemma map_insort_key: "map f (insort_key f x xs) = insort (f x) (map f xs)"
  by (induction xs) auto

lemma map_sort_key: "map f (sort_key f xs) = sort (map f xs)"
  by (induction xs) (auto simp: map_insort_key)

lemma parse_edges_no_edge_drawing:
  assumes "no_edge_drawing e self s" "heap s' = heap s"
  shows "fst (parse_edges e self (brd self) s') = ([], None)"
proof -
  have "\<forall>d\<in>set (all_drawings self s). item_GetLayer d = Edge_Cuts \<longrightarrow>
      (\<forall>t. fst (parse_drawing e d t) = None)"
    using assms(1) parse_drawing_None_state[of e _ s] by (auto simp: no_edge_drawing_def)
  then have "fst (parse_edges_loop e (all_drawings self s) [] None s') = ([], None)"
    by (rule parse_edges_loop_no_shape)
  then show ?thesis
    by (simp add: parse_edges_def Let_def split_beta all_drawings_def assms(2))
qed

lemma parse_edges_edge_drawing:
  assumes "\<not> no_edge_drawing e self s" "heap s' = heap s"
  shows "\<exists>y. snd (fst (parse_edges e self (brd self) s')) = Some y"
proof -
  from assms(1) obtain d where d: "d \<in> set (all_drawings self s)" "item_GetLayer d = Edge_Cuts"
      "fst (parse_drawing e d s) \<noteq> None"
    by (auto simp: no_edge_drawing_def simp del: not_None_eq)
  from parse_edges_loop_some_shape[OF d]
  obtain y where "snd (fst (parse_edges_loop e (all_drawings self s) [] None s')) = Some y"
    by blast
  then show ?thesis
    by (simp add: parse_edges_def Let_def split_beta all_drawings_def assms(2))
qed

lemma parse_no_edge_drawing:
  assumes "no_edge_drawing e self s"
  shows "fst (parse e self s) = Inl (ParsingException (''Failed parsing '' @ netlist_file (cfg self))) \<or>
         fst (parse e self s) = Inr (None, None) \<and>
         last (logger (snd (parse e self s))) = outline_error"
proof (cases "extra_field_block e (cfg self) s")
  case (Pair r s1)
  then have s1: "heap s1 = heap s"
    by (metis heap_extra_field_block snd_conv)
  show ?thesis
  proof (cases r)
    case (Inl exn)
    with Pair have "exn = ParsingException (''Failed parsing '' @ netlist_file (cfg self))"
      by (auto simp: extra_field_block_cases split: if_splits)
    with Pair Inl show ?thesis by (simp add: parse_def)
  next
    case (Inr x)
    obtain d need where x: "x = (d, need)" by (cases x)
    from parse_edges_no_edge_drawing[OF assms s1]
    obtain s2 where "parse_edges e self (brd self) s1 = (([], None), s2)"
      by (cases "parse_edges e self (brd self) s1") auto
    with Pair Inr x show ?thesis
      by (simp add: parse_def Let_def log_def outline_error_def)
  qed
qed

lemma parse_edge_drawing:
  assumes "\<not> no_edge_drawing e self s"
  shows "fst (parse e self s) = Inl (ParsingException (''Failed parsing '' @ netlist_file (cfg self))) \<or>
         (\<exists>pcbdata components. fst (parse e self s) = Inr (Some pcbdata, Some components))"
proof (cases "extra_field_block e (cfg self) s")
  case (Pair r s1)
  then have s1: "heap s1 = heap s"
    by (metis heap_extra_field_block snd_conv)
  show ?thesis
  proof (cases r)
    case (Inl exn)
    with Pair have "exn = ParsingException (''Failed parsing '' @ netlist_file (cfg self))"
      by (auto simp: extra_field_block_cases split: if_splits)
    with Pair Inl show ?thesis by (simp add: parse_def)
  next
    case (Inr x)
    obtain d need where x: "x = (d, need)" by (cases x)
    from parse_edges_edge_drawing[OF assms s1]
    obtain edges b s2 where "parse_edges e self (brd self) s1 = ((edges, Some b), s2)"
      by (cases "parse_edges e self (brd self) s1") auto
    with Pair Inr x show ?thesis
      by (simp add: parse_def Let_def split_beta)
  qed
qed

lemma outline_shapes_edge_drawing:
  "outline_shapes e self s \<noteq> [] \<Longrightarrow> \<not> no_edge_drawing e self s"
  by (auto simp: outline_shapes_def no_edge_drawing_def filter_empty_conv simp del: not_None_eq)

lemma parse_raises_iff:
  "isl (fst (parse e self s)) \<longleftrightarrow>
     fields_requested (cfg self) \<and> netlist_file (cfg self) \<noteq> '''' \<and> source_data e (cfg self) = None"
  by (auto simp: parse_def extra_field_block_cases Let_def split_beta split: option.splits)

lemma parse_raises:
  assumes "fields_requested (cfg self)" "netlist_file (cfg self) \<noteq> ''''"
    "source_data e (cfg self) = None"
  shows "parse e self s = (Inl (ParsingException (''Failed parsing '' @ netlist_file (cfg self))), s)"
  using assms by (simp add: parse_def extra_field_block_cases)

subsection \<open>Outlines of a polygon set\<close>




subsection \<open>Arc angles\<close>













subsection \<open>Net names\<close>

lemma parse_zone_layers_net:
  assumes "z \<in> set zones"
    and "\<forall>d\<in>set (fst acc) \<union> set (snd acc). zone_net_ok config zones d"
  shows "\<forall>d\<in>set (fst (fst (parse_zone_layers config z ls acc s))) \<union>
        set (snd (fst (parse_zone_layers config z ls acc s))). zone_net_ok config zones d"
  using assms(2)
proof (induction ls arbitrary: acc s)
  case Nil
  then show ?case by simp
next
  case (Cons l ls)
  show ?case
    apply (simp only: parse_zone_layers.simps Let_def split_beta)
    apply (rule Cons.IH)
    using Cons.prems assms(1) by (auto simp: zone_net_ok_def)
qed

lemma parse_zones_loop_net:
  assumes "set zs \<subseteq> set zones"
    and "\<forall>d\<in>set (fst acc) \<union> set (snd acc). zone_net_ok config zones d"
  shows "\<forall>d\<in>set (fst (fst (parse_zones_loop config zs acc s))) \<union>
        set (snd (fst (parse_zones_loop config zs acc s))). zone_net_ok config zones d"
  using assms
proof (induction zs arbitrary: acc s)
  case Nil
  then show ?case by simp
next
  case (Cons z zs)
  have zin: "z \<in> set zones" and sub: "set zs \<subseteq> set zones" using Cons.prems(1) by auto
  show ?case
  proof (cases "\<not> IsFilled z \<or> GetIsKeepout z = Some True \<or> GetIsRuleArea z = Some True")
    case True
    then show ?thesis using Cons.IH[OF sub Cons.prems(2)] by simp
  next
    case False
    define ls where "ls = filter (\<lambda>layer. layer \<in> set [F_Cu, B_Cu]) (zone_GetLayerSet z)"
    define r where "r = parse_zone_layers config z ls acc s"
    have "\<forall>d\<in>set (fst (fst r)) \<union> set (snd (fst r)). zone_net_ok config zones d"
      unfolding r_def by (rule parse_zone_layers_net[OF zin Cons.prems(2)])
    from Cons.IH[OF sub this, of "snd r"] have
      "\<forall>d\<in>set (fst (fst (parse_zones_loop config zs (fst r) (snd r)))) \<union>
           set (snd (fst (parse_zones_loop config zs (fst r) (snd r)))). zone_net_ok config zones d" .
    moreover have "parse_zones_loop config (z # zs) acc s = parse_zones_loop config zs (fst r) (snd r)"
      using False unfolding r_def ls_def by (simp only: parse_zones_loop.simps Let_def split_beta if_False)
    ultimately show ?thesis by simp
  qed
qed

lemma parse_zones_net:
  "\<forall>d\<in>set (F (fst (parse_zones config zones s))) \<union> set (B (fst (parse_zones config zones s))).
     zone_net_ok config zones d"
  using parse_zones_loop_net[of zones zones "([], [])" config s]
  by (simp add: parse_zones_def Let_def split_beta)

lemma parse_pad_net:
  "fst (parse_pad e config p s) = Some d \<Longrightarrow>
   pd_net d = (if include_nets config then Some (pad_GetNetname p) else None)"
proof (cases "pad_shape_lookup e (pad_GetShape p) = ''''")
  case True
  assume "fst (parse_pad e config p s) = Some d"
  with True show ?thesis by (simp add: parse_pad_skip)
next
  case False
  assume a: "fst (parse_pad e config p s) = Some d"
  from parse_pad_parsed[OF False, of config s] a show ?thesis by auto
qed

text \<open>
  C10. \<^verbatim>\<open>parse_tracks\<close> gives, for each side, the records of the tracks of that side.
  The record of a via has the net name of the via, whatever the configuration; the
  record of any other track, the dictionary of a pad and the dictionary of a zone
  have a net name when \<^verbatim>\<open>include_nets\<close> is set, and none otherwise.
\<close>
theorem net_name_inclusion:
  "parse_tracks config ts =
     \<lparr>F = map (track_record config) (filter (on_side F_Cu) ts),
      B = map (track_record config) (filter (on_side B_Cu) ts)\<rparr> \<and>
   (track_GetClass t = ''VIA'' \<longrightarrow> t_net (track_record config t) = Some (track_GetNetname t)) \<and>
   (track_GetClass t \<noteq> ''VIA'' \<longrightarrow>
      t_net (track_record config t) =
        (if include_nets config then Some (track_GetNetname t) else None)) \<and>
   (fst (parse_pad e config p s) = Some d \<longrightarrow>
      pd_net d = (if include_nets config then Some (pad_GetNetname p) else None)) \<and>
   (\<forall>zd\<in>set (F (fst (parse_zones config zones s))) \<union> set (B (fst (parse_zones config zones s))).
      if include_nets config then \<exists>z\<in>set zones. z_net zd = Some (zone_GetNetname z)
      else z_net zd = None)"
proof (intro conjI impI)
  show "parse_tracks config ts =
     \<lparr>F = map (track_record config) (filter (on_side F_Cu) ts),
      B = map (track_record config) (filter (on_side B_Cu) ts)\<rparr>"
    by (rule parse_tracks_map_filter)
next
  assume "track_GetClass t = ''VIA''"
  then show "t_net (track_record config t) = Some (track_GetNetname t)"
    by (simp add: track_record_def)
next
  assume "track_GetClass t \<noteq> ''VIA''"
  then show "t_net (track_record config t) =
        (if include_nets config then Some (track_GetNetname t) else None)"
    by (simp add: track_record_def)
next
  assume "fst (parse_pad e config p s) = Some d"
  then show "pd_net d = (if include_nets config then Some (pad_GetNetname p) else None)"
    by (rule parse_pad_net)
next
  show "\<forall>zd\<in>set (F (fst (parse_zones config zones s))) \<union> set (B (fst (parse_zones config zones s))).
      if include_nets config then \<exists>z\<in>set zones. z_net zd = Some (zone_GetNetname z)
      else z_net zd = None"
    using parse_zones_net[of config zones s] by (simp add: zone_net_ok_def)
qed

text \<open>
  With \<^verbatim>\<open>include_nets\<close> off: the via keeps its net \<^verbatim>\<open>GND\<close>, the track, the pad and the
  zone have none.
\<close>
theorem net_name_inclusion_witness:
  "parse_tracks (ex_config [] '''') [ex_track ''VIA'' F_Cu, ex_track ''TRACK'' B_Cu] =
     \<lparr>F = [SegmentT (0, 0) (1, 0) (1 / 5) (Some ''GND'')],
      B = [SegmentT (0, 0) (1, 0) (1 / 5) (Some ''GND''), SegmentT (0, 0) (1, 0) (1 / 5) None]\<rparr> \<and>
   map_option pd_net (fst (parse_pad ex_env (ex_config [] '''') (ex_pad ''1'' 0) (ex_state []))) =
     Some None \<and>
   map z_net (F (fst (parse_zones (ex_config [] '''') [ex_zone] (ex_state [])))) = [None]"
proof -
  let ?c = "ex_config [] ''''"
  let ?via = "ex_track ''VIA'' F_Cu"
  let ?trk = "ex_track ''TRACK'' B_Cu"
  have h1: "track_GetClass ?via = ''VIA''" by (simp add: ex_track_def)
  have h2: "track_GetClass ?trk \<noteq> ''VIA''" by (simp add: ex_track_def)
  have rv: "track_record ?c ?via = SegmentT (0, 0) (1, 0) (1 / 5) (t_net (track_record ?c ?via))"
    by (simp add: track_record_def ex_track_def normalize_def)
  have rt: "track_record ?c ?trk = SegmentT (0, 0) (1, 0) (1 / 5) (t_net (track_record ?c ?trk))"
    by (simp add: track_record_def ex_track_def normalize_def)
  have sides: "filter (on_side F_Cu) [?via, ?trk] = [?via]" "filter (on_side B_Cu) [?via, ?trk] = [?via, ?trk]"
    by (simp_all add: on_side_def ex_track_def)
  have nets: "\<not> include_nets ?c" by (simp add: ex_config_def)
  obtain d where d: "fst (parse_pad ex_env ?c (ex_pad ''1'' 0) (ex_state [])) = Some d"
    using parse_pad_parsed[of ex_env "ex_pad ''1'' 0" ?c "ex_state []"]
    by (auto simp: ex_env_def ex_pad_def pad_shape_lookup_def)
  have z: "length (F (fst (parse_zones ?c [ex_zone] (ex_state [])))) = 1" by code_simp
  have zn: "\<forall>zd\<in>set (F (fst (parse_zones ?c [ex_zone] (ex_state [])))). z_net zd = None"
    using net_name_inclusion[of ?c "[]" ?via ex_env "ex_pad ''1'' 0" "ex_state []" d "[ex_zone]"] nets
    by simp
  have zl: "map z_net (F (fst (parse_zones ?c [ex_zone] (ex_state [])))) = [None]"
    using z zn by (cases "F (fst (parse_zones ?c [ex_zone] (ex_state [])))") auto
  from net_name_inclusion[of ?c "[?via, ?trk]" ?via ex_env "ex_pad ''1'' 0" "ex_state []" d "[ex_zone]"]
    net_name_inclusion[of ?c "[?via, ?trk]" ?trk ex_env "ex_pad ''1'' 0" "ex_state []" d "[ex_zone]"]
    h1 h2 d nets zl
  show ?thesis
    using rv rt sides by (simp add: ex_track_def)
qed

subsection \<open>No outline\<close>

text \<open>
  C1. A board without an outline shape can still give board data: \<^verbatim>\<open>parse_edges\<close>
  takes every item of the edge-cuts layer that parses to a drawing, a visible text
  too. With one visible text on the edge-cuts layer and no shape there, \<^verbatim>\<open>parse\<close>
  raises nothing and returns board data.
\<close>
theorem edge_text_counterexample:
  "outline_shapes ex_env (ex_parser (ex_config [] '''') [ex_edge_text]) (ex_state [''1'']) = [] \<and>
   isl (fst (parse ex_env (ex_parser (ex_config [] '''') [ex_edge_text]) (ex_state [''1'']))) = False \<and>
   fst (projr (fst (parse ex_env (ex_parser (ex_config [] '''') [ex_edge_text])
                      (ex_state [''1''])))) \<noteq> None"
  by code_simp

text \<open>
  C1, as the code has it. When no item on the edge-cuts layer, shape or text, of the
  board or of a footprint parses to a drawing, \<^verbatim>\<open>parse\<close> gives no board data, not
  even a partial record: either it raises the parsing exception of the extra field
  data, whose message names the file, or it returns \<^verbatim>\<open>(None, None)\<close> and the last
  entry of the log is the error that asks for an outline on the edges layer. When
  some item on the edge-cuts layer parses to a drawing, \<^verbatim>\<open>parse\<close> returns the board
  data and the components, unless it raises that exception. A parsed outline shape
  is such an item.
\<close>
theorem parse_fails_without_edge_drawing:
  "(no_edge_drawing e self s \<longrightarrow>
      fst (parse e self s) = Inl (ParsingException (''Failed parsing '' @ netlist_file (cfg self))) \<or>
      fst (parse e self s) = Inr (None, None) \<and>
      last (logger (snd (parse e self s))) = outline_error) \<and>
   (\<not> no_edge_drawing e self s \<longrightarrow>
      fst (parse e self s) = Inl (ParsingException (''Failed parsing '' @ netlist_file (cfg self))) \<or>
      (\<exists>pcbdata components. fst (parse e self s) = Inr (Some pcbdata, Some components))) \<and>
   (outline_shapes e self s \<noteq> [] \<longrightarrow> \<not> no_edge_drawing e self s)"
  using parse_no_edge_drawing parse_edge_drawing outline_shapes_edge_drawing by blast

text \<open>
  A board whose only drawing is on the silkscreen: the result is \<^verbatim>\<open>(None, None)\<close> and
  the log holds the one error. With a visible text on the edge-cuts layer added,
  there is board data.
\<close>
theorem parse_fails_without_edge_drawing_witness:
  "fst (parse ex_env (ex_parser (ex_config [] '''') [ex_item F_SilkS S_SEGMENT]) (ex_state [''1''])) =
     Inr (None, None) \<and>
   logger (snd (parse ex_env (ex_parser (ex_config [] '''') [ex_item F_SilkS S_SEGMENT])
                  (ex_state [''1'']))) = [outline_error] \<and>
   fst (projr (fst (parse ex_env (ex_parser (ex_config [] '''') [ex_item F_SilkS S_SEGMENT, ex_edge_text])
                      (ex_state [''1''])))) \<noteq> None"
proof -
  let ?p = "ex_parser (ex_config [] '''') [ex_item F_SilkS S_SEGMENT]"
  let ?q = "ex_parser (ex_config [] '''') [ex_item F_SilkS S_SEGMENT, ex_edge_text]"
  have h: "no_edge_drawing ex_env ?p (ex_state [''1''])" by code_simp
  have g: "\<not> no_edge_drawing ex_env ?q (ex_state [''1''])" by code_simp
  have n: "\<not> isl (fst (parse ex_env ?p (ex_state [''1''])))"
    "\<not> isl (fst (parse ex_env ?q (ex_state [''1''])))"
    by (simp_all add: parse_raises_iff fields_requested_def ex_parser_def ex_config_def)
  have l: "length (logger (snd (parse ex_env ?p (ex_state [''1''])))) = 1" by code_simp
  from parse_fails_without_edge_drawing[of ex_env ?p "ex_state [''1'']"] h n(1)
  have r: "fst (parse ex_env ?p (ex_state [''1''])) = Inr (None, None)"
    and e: "last (logger (snd (parse ex_env ?p (ex_state [''1''])))) = outline_error"
    by auto
  from l e have lg: "logger (snd (parse ex_env ?p (ex_state [''1'']))) = [outline_error]"
    by (cases "logger (snd (parse ex_env ?p (ex_state [''1''])))") auto
  from parse_fails_without_edge_drawing[of ex_env ?q "ex_state [''1'']"] g n(2)
  have "fst (projr (fst (parse ex_env ?q (ex_state [''1''])))) \<noteq> None"
    by auto
  with r lg show ?thesis by simp
qed

subsection \<open>How many first pins\<close>

text \<open>
  C3. The number of pads with the \<^verbatim>\<open>pin1\<close> flag is not always 0 or 1: the loop that
  sets the flag compares every pad name with the chosen name, so a footprint with
  two pads named \<^verbatim>\<open>1\<close> has two flagged pads.
\<close>
theorem pin1_count_counterexample:
  "pin1_count (fd_pads (fst (parse_footprint ex_env (ex_config [] '''') 0 (ex_state [''1'', ''1''])))) = 2"
  by code_simp

lemma pin1_count_guess:
  assumes "\<forall>p\<in>set named. pd_pin1 (snd p) = None"
  shows "pin1_count (guess_pin1 named) =
     (if named = [] then 0 else count_list (map fst named) (spec_pin1_name (map fst named)))"
proof (cases "named = []")
  case True
  then show ?thesis by (simp add: pin1_count_def)
next
  case False
  have "\<forall>p\<in>set (sort_key fst named). pd_pin1 (snd p) = None" using assms by simp
  then have "pin1_count (map (mark_pin1 (spec_pin1_name (map fst named))) (sort_key fst named)) =
      length (filter (\<lambda>p. fst p = spec_pin1_name (map fst named)) (sort_key fst named))"
    by (rule pin1_count_marked)
  also have "\<dots> = length (filter (\<lambda>p. fst p = spec_pin1_name (map fst named)) named)"
    by (rule length_filter_sort_key)
  also have "\<dots> = count_list (map fst named) (spec_pin1_name (map fst named))"
    by (rule length_filter_fst_count)
  finally show ?thesis using False by (simp add: guess_pin1_spec)
qed

text \<open>
  C3, as the code has it. The number of flagged pads of a footprint is the number of
  parsed pads that carry the chosen first-pin name: 0 when no pad parses, at least 1
  when some pad parses, and at most 1 when the names of the parsed pads are distinct.
\<close>
theorem pin1_count_by_designator:
  "pin1_count (fd_pads (fst (parse_footprint e config f s))) =
     (if parsed_pad_names e (Pads (heap s f)) = [] then 0
      else count_list (parsed_pad_names e (Pads (heap s f)))
             (spec_pin1_name (parsed_pad_names e (Pads (heap s f))))) \<and>
   (parsed_pad_names e (Pads (heap s f)) \<noteq> [] \<longrightarrow>
      1 \<le> pin1_count (fd_pads (fst (parse_footprint e config f s)))) \<and>
   (distinct (parsed_pad_names e (Pads (heap s f))) \<longrightarrow>
      pin1_count (fd_pads (fst (parse_footprint e config f s))) \<le> 1)"
proof -
  let ?named = "named_pads e config s (Pads (heap s f))"
  let ?names = "parsed_pad_names e (Pads (heap s f))"
  have names: "map fst ?named = ?names" by (rule map_fst_named_pads)
  have ne: "?named = [] \<longleftrightarrow> ?names = []" using names by (metis map_is_Nil_conv)
  have "\<forall>p\<in>set ?named. pd_pin1 (snd p) = None" by (auto dest: named_pads_pin1_None)
  then have c: "pin1_count (fd_pads (fst (parse_footprint e config f s))) =
      (if ?names = [] then 0 else count_list ?names (spec_pin1_name ?names))"
    by (simp add: fd_pads_parse_footprint pin1_count_guess names ne)
  have "count_list ?names (spec_pin1_name ?names) \<noteq> 0" if "?names \<noteq> []"
    using spec_pin1_name_in[OF that] by (simp add: count_list_0_iff)
  then have "1 \<le> count_list ?names (spec_pin1_name ?names)" if "?names \<noteq> []"
    using that by (simp add: Suc_le_eq)
  then have ge: "?names \<noteq> [] \<longrightarrow> 1 \<le> pin1_count (fd_pads (fst (parse_footprint e config f s)))"
    using c by simp
  have "count_list ?names (spec_pin1_name ?names) \<le> 1" if "distinct ?names"
    using that by (rule count_list_distinct_le1)
  then have le: "distinct ?names \<longrightarrow> pin1_count (fd_pads (fst (parse_footprint e config f s))) \<le> 1"
    using c by simp
  from c ge le show ?thesis by blast
qed

text \<open>Pads \<^verbatim>\<open>2\<close>, \<^verbatim>\<open>1\<close>, \<^verbatim>\<open>3\<close>: one flagged pad.\<close>
theorem pin1_count_by_designator_witness:
  "pin1_count (fd_pads (fst (parse_footprint ex_env (ex_config [] '''') 0
      (ex_state [''2'', ''1'', ''3''])))) = 1"
proof -
  have n: "parsed_pad_names ex_env (Pads (heap (ex_state [''2'', ''1'', ''3'']) 0)) = [''2'', ''1'', ''3'']"
    by code_simp
  have d: "distinct [''2'', ''1'', ''3'']" by simp
  from pin1_count_by_designator[of ex_env "ex_config [] ''''" 0 "ex_state [''2'', ''1'', ''3'']"]
  show ?thesis unfolding n using d by simp
qed

subsection \<open>Which pad is the first pin\<close>

text \<open>
  C4. For a footprint with at least one parsed pad, the pad list is the parsed pads
  sorted by name, and the flag \<^verbatim>\<open>pin1\<close> is on the pads whose name is
  \<open>spec_pin1_name\<close> of the names: the least of the names among \<^verbatim>\<open>1\<close>, \<^verbatim>\<open>A\<close>, \<^verbatim>\<open>A1\<close>,
  \<^verbatim>\<open>P1\<close>, \<^verbatim>\<open>PAD1\<close> that occur, or else the least name of all. The chosen name is the
  name of a parsed pad.
\<close>
theorem pin1_selection:
  "parsed_pad_names e (Pads (heap s f)) \<noteq> [] \<Longrightarrow>
   fd_pads (fst (parse_footprint e config f s)) =
     map (mark_pin1 (spec_pin1_name (parsed_pad_names e (Pads (heap s f)))))
       (sort_key fst (named_pads e config s (Pads (heap s f)))) \<and>
   map (\<lambda>d. pd_pin1 d \<noteq> None) (fd_pads (fst (parse_footprint e config f s))) =
     map (\<lambda>n. n = spec_pin1_name (parsed_pad_names e (Pads (heap s f))))
       (sort (parsed_pad_names e (Pads (heap s f)))) \<and>
   spec_pin1_name (parsed_pad_names e (Pads (heap s f))) \<in> set (parsed_pad_names e (Pads (heap s f)))"
proof -
  assume a: "parsed_pad_names e (Pads (heap s f)) \<noteq> []"
  let ?named = "named_pads e config s (Pads (heap s f))"
  let ?names = "parsed_pad_names e (Pads (heap s f))"
  have names: "map fst ?named = ?names" by (rule map_fst_named_pads)
  then have ne: "?named \<noteq> []" using a by auto
  have eq: "fd_pads (fst (parse_footprint e config f s)) =
      map (mark_pin1 (spec_pin1_name ?names)) (sort_key fst ?named)"
    using guess_pin1_spec[OF ne] by (simp add: fd_pads_parse_footprint names)
  have none: "\<forall>p\<in>set (sort_key fst ?named). pd_pin1 (snd p) = None"
    by (auto dest: named_pads_pin1_None)
  have "map (\<lambda>d. pd_pin1 d \<noteq> None) (map (mark_pin1 (spec_pin1_name ?names)) (sort_key fst ?named)) =
      map (\<lambda>n. n = spec_pin1_name ?names) (map fst (sort_key fst ?named))"
    using none by (auto simp: mark_pin1_def)
  then have fl: "map (\<lambda>d. pd_pin1 d \<noteq> None) (fd_pads (fst (parse_footprint e config f s))) =
      map (\<lambda>n. n = spec_pin1_name ?names) (sort ?names)"
    by (simp add: eq map_sort_key names)
  show ?thesis using eq fl spec_pin1_name_in[OF a] by simp
qed

text \<open>
  Pads \<^verbatim>\<open>B2\<close>, \<^verbatim>\<open>B1\<close>: the pad \<^verbatim>\<open>B1\<close> (at 1 mm) comes first and is flagged. Pads \<^verbatim>\<open>3\<close>,
  \<^verbatim>\<open>A1\<close>, \<^verbatim>\<open>1\<close>: the pad \<^verbatim>\<open>1\<close> is flagged, not \<^verbatim>\<open>A1\<close>.
\<close>
theorem pin1_selection_witness:
  "map pd_pin1 (fd_pads (fst (parse_footprint ex_env (ex_config [] '''') 0 (ex_state [''B2'', ''B1''])))) =
     [Some 1, None] \<and>
   map pd_pos (fd_pads (fst (parse_footprint ex_env (ex_config [] '''') 0 (ex_state [''B2'', ''B1''])))) =
     [(1, 0), (0, 0)] \<and>
   map pd_pin1 (fd_pads (fst (parse_footprint ex_env (ex_config [] '''') 0
      (ex_state [''3'', ''A1'', ''1''])))) = [Some 1, None, None]"
proof -
  let ?c = "ex_config [] ''''"
  have n1: "parsed_pad_names ex_env (Pads (heap (ex_state [''B2'', ''B1'']) 0)) = [''B2'', ''B1'']"
    by code_simp
  have n2: "parsed_pad_names ex_env (Pads (heap (ex_state [''3'', ''A1'', ''1'']) 0)) = [''3'', ''A1'', ''1'']"
    by code_simp
  have s1: "spec_pin1_name [''B2'', ''B1''] = ''B1''" by code_simp
  have s2: "spec_pin1_name [''3'', ''A1'', ''1''] = ''1''" by code_simp
  have k1: "sort_key fst (named_pads ex_env ?c (ex_state [''B2'', ''B1''])
        (Pads (heap (ex_state [''B2'', ''B1'']) 0))) =
      [(''B1'', the (fst (parse_pad ex_env ?c (ex_pad ''B1'' 1000000) (ex_state [])))),
       (''B2'', the (fst (parse_pad ex_env ?c (ex_pad ''B2'' 0) (ex_state []))))]"
    by code_simp
  have k2: "map fst (sort_key fst (named_pads ex_env ?c (ex_state [''3'', ''A1'', ''1''])
        (Pads (heap (ex_state [''3'', ''A1'', ''1'']) 0)))) = [''1'', ''3'', ''A1'']"
    by code_simp
  have p1: "pd_pin1 (the (fst (parse_pad ex_env ?c (ex_pad ''B1'' 1000000) (ex_state [])))) = None"
    "pd_pin1 (the (fst (parse_pad ex_env ?c (ex_pad ''B2'' 0) (ex_state [])))) = None"
    "pd_pos (the (fst (parse_pad ex_env ?c (ex_pad ''B1'' 1000000) (ex_state [])))) = (1, 0)"
    "pd_pos (the (fst (parse_pad ex_env ?c (ex_pad ''B2'' 0) (ex_state [])))) = (0, 0)"
    by code_simp+
  have a: "map pd_pin1 (fd_pads (fst (parse_footprint ex_env ?c 0 (ex_state [''B2'', ''B1''])))) =
     [Some 1, None] \<and>
   map pd_pos (fd_pads (fst (parse_footprint ex_env ?c 0 (ex_state [''B2'', ''B1''])))) =
     [(1, 0), (0, 0)]"
    using pin1_selection[of ex_env "ex_state [''B2'', ''B1'']" 0 ?c]
    unfolding n1 s1 k1 by (simp add: mark_pin1_def p1)
  have "map pd_pin1 (fd_pads (fst (parse_footprint ex_env ?c 0
      (ex_state [''3'', ''A1'', ''1''])))) = [Some 1, None, None]" by code_simp
  then show ?thesis using a by simp
qed

subsection \<open>Missing extra field data\<close>

text \<open>
  C7. Asking for extra fields does not always make \<^verbatim>\<open>parse\<close> fail when the data is
  missing: with the field \<^verbatim>\<open>Value\<close> asked for and no netlist file configured, \<^verbatim>\<open>parse\<close>
  raises nothing and returns board data.
\<close>
theorem extra_fields_counterexample:
  "extra_fields (cfg (ex_parser (ex_config [''Value''] '''') [ex_item Edge_Cuts S_SEGMENT])) = [''Value''] \<and>
   netlist_file (cfg (ex_parser (ex_config [''Value''] '''') [ex_item Edge_Cuts S_SEGMENT])) = '''' \<and>
   isl (fst (parse ex_env (ex_parser (ex_config [''Value''] '''') [ex_item Edge_Cuts S_SEGMENT])
              (ex_state [''1'']))) = False \<and>
   fst (projr (fst (parse ex_env (ex_parser (ex_config [''Value''] '''') [ex_item Edge_Cuts S_SEGMENT])
              (ex_state [''1''])))) \<noteq> None"
  by code_simp

text \<open>
  C7, as the code has it. When extra field data is asked for and a netlist file is
  configured that is no file or does not parse, \<^verbatim>\<open>parse\<close> raises the parsing
  exception that names the file, and leaves the state as it is. When extra field data
  is asked for and no netlist file is configured, \<^verbatim>\<open>parse\<close> raises nothing: it logs
  the warning that the parameters are ignored and goes on without the data. When no
  extra field data is asked for, \<^verbatim>\<open>parse\<close> raises nothing.
\<close>
theorem extra_fields_failure:
  "(fields_requested (cfg self) \<and> netlist_file (cfg self) \<noteq> '''' \<and>
    (\<not> isfile e (netlist_file (cfg self)) \<or>
     extra_data_func e (netlist_file (cfg self)) (normalize_field_case (cfg self)) = None) \<longrightarrow>
      parse e self s =
        (Inl (ParsingException (''Failed parsing '' @ netlist_file (cfg self))), s)) \<and>
   (fields_requested (cfg self) \<and> netlist_file (cfg self) = '''' \<longrightarrow>
      \<not> isl (fst (parse e self s)) \<and>
      extra_field_block e (cfg self) s =
        (Inr (None, False), s\<lparr>logger := logger s @ [ignoring_warning]\<rparr>)) \<and>
   (\<not> fields_requested (cfg self) \<longrightarrow> \<not> isl (fst (parse e self s)))"
proof (intro conjI impI)
  assume a: "fields_requested (cfg self) \<and> netlist_file (cfg self) \<noteq> '''' \<and>
    (\<not> isfile e (netlist_file (cfg self)) \<or>
     extra_data_func e (netlist_file (cfg self)) (normalize_field_case (cfg self)) = None)"
  then have "source_data e (cfg self) = None" by (auto simp: source_data_def)
  with a show "parse e self s =
        (Inl (ParsingException (''Failed parsing '' @ netlist_file (cfg self))), s)"
    by (simp add: parse_raises)
next
  assume a: "fields_requested (cfg self) \<and> netlist_file (cfg self) = ''''"
  then show "\<not> isl (fst (parse e self s))" by (simp add: parse_raises_iff)
  from a show "extra_field_block e (cfg self) s =
        (Inr (None, False), s\<lparr>logger := logger s @ [ignoring_warning]\<rparr>)"
    by (simp add: extra_field_block_cases log_def ignoring_warning_def)
next
  assume "\<not> fields_requested (cfg self)"
  then show "\<not> isl (fst (parse e self s))" by (simp add: parse_raises_iff)
qed

text \<open>
  The field \<^verbatim>\<open>Value\<close> with the missing file \<^verbatim>\<open>x.net\<close>, with no file, and no field at
  all.
\<close>
theorem extra_fields_failure_witness:
  "parse ex_env (ex_parser (ex_config [''Value''] ''x.net'') []) (ex_state []) =
     (Inl (ParsingException ''Failed parsing x.net''), ex_state []) \<and>
   isl (fst (parse ex_env (ex_parser (ex_config [''Value''] '''') []) (ex_state []))) = False \<and>
   isl (fst (parse ex_env (ex_parser (ex_config [] '''') []) (ex_state []))) = False"
proof -
  have h1: "fields_requested (cfg (ex_parser (ex_config [''Value''] ''x.net'') [])) \<and>
      netlist_file (cfg (ex_parser (ex_config [''Value''] ''x.net'') [])) \<noteq> '''' \<and>
      (\<not> isfile ex_env (netlist_file (cfg (ex_parser (ex_config [''Value''] ''x.net'') []))) \<or>
       extra_data_func ex_env (netlist_file (cfg (ex_parser (ex_config [''Value''] ''x.net'') [])))
         (normalize_field_case (cfg (ex_parser (ex_config [''Value''] ''x.net'') []))) = None)"
    by (simp add: fields_requested_def ex_parser_def ex_config_def ex_env_def)
  have h2: "fields_requested (cfg (ex_parser (ex_config [''Value''] '''') [])) \<and>
      netlist_file (cfg (ex_parser (ex_config [''Value''] '''') [])) = ''''"
    by (simp add: fields_requested_def ex_parser_def ex_config_def)
  have h3: "\<not> fields_requested (cfg (ex_parser (ex_config [] '''') []))"
    by (simp add: fields_requested_def ex_parser_def ex_config_def)
  have n: "netlist_file (cfg (ex_parser (ex_config [''Value''] ''x.net'') [])) = ''x.net''"
    by (simp add: ex_parser_def ex_config_def)
  from extra_fields_failure[of "ex_parser (ex_config [''Value''] ''x.net'') []" ex_env "ex_state []"]
    extra_fields_failure[of "ex_parser (ex_config [''Value''] '''') []" ex_env "ex_state []"]
    extra_fields_failure[of "ex_parser (ex_config [] '''') []" ex_env "ex_state []"]
    h1 h2 h3
  show ?thesis by (simp add: n)
qed

subsection \<open>Order of the result\<close>






subsection \<open>The board after parse\<close>

lemma fd_bbox_parse_footprint:
  assumes "f \<noteq> next_free s"
  shows "fd_bbox (fst (parse_footprint e config f s)) =
     \<lparr>bb_pos = normalize (fp_GetPosition (heap s f)),
      bb_relpos = normalize (rect_GetPosition
        (footprint_rect e ((heap s f)\<lparr>fp_GetOrientation := 0, fp_GetPosition := (0, 0)\<rparr>))),
      bb_size = normalize (rect_GetSize
        (footprint_rect e ((heap s f)\<lparr>fp_GetOrientation := 0, fp_GetPosition := (0, 0)\<rparr>))),
      bb_angle = fp_GetOrientation (heap s f) * (1 / 10)\<rparr>"
  using assms
  by (simp add: parse_footprint_def Let_def split_beta FOOTPRINT_def SetOrientation_def
      SetPosition_def footprint_rect_def split: option.split)

lemma heap_copy_parse_footprint:
  "heap (snd (parse_footprint e config f s)) (next_free s) =
     (heap s f)\<lparr>fp_GetOrientation := 0, fp_GetPosition := (0, 0)\<rparr>"
  by (simp add: parse_footprint_def Let_def split_beta FOOTPRINT_def SetOrientation_def
      SetPosition_def)

text \<open>
  C9. \<^verbatim>\<open>parse\<close> leaves every object that is in the store when it starts as it is, and
  so the board, whose footprints are such objects; it only allocates. One call of
  \<^verbatim>\<open>parse_footprint\<close> changes the store at the fresh address alone, where it leaves the
  copy of the footprint with orientation 0 and position (0, 0); and the bounding box
  of the result has the position and the angle of the footprint itself, and the
  relative position and the size of the rectangle of that copy.
\<close>
theorem source_board_unchanged:
  "(\<forall>a<next_free s. heap (snd (parse e self s)) a = heap s a) \<and>
   next_free s \<le> next_free (snd (parse e self s)) \<and>
   (\<forall>a. a \<noteq> next_free s \<longrightarrow> heap (snd (parse_footprint e config f s)) a = heap s a) \<and>
   heap (snd (parse_footprint e config f s)) (next_free s) =
     (heap s f)\<lparr>fp_GetOrientation := 0, fp_GetPosition := (0, 0)\<rparr> \<and>
   (f < next_free s \<longrightarrow>
      fd_bbox (fst (parse_footprint e config f s)) =
        \<lparr>bb_pos = normalize (fp_GetPosition (heap s f)),
         bb_relpos = normalize (rect_GetPosition
           (footprint_rect e ((heap s f)\<lparr>fp_GetOrientation := 0, fp_GetPosition := (0, 0)\<rparr>))),
         bb_size = normalize (rect_GetSize
           (footprint_rect e ((heap s f)\<lparr>fp_GetOrientation := 0, fp_GetPosition := (0, 0)\<rparr>))),
         bb_angle = fp_GetOrientation (heap s f) * (1 / 10)\<rparr>)"
  by (auto simp: parse_frame heap_parse_footprint heap_copy_parse_footprint
      fd_bbox_parse_footprint)

text \<open>
  The footprint at (3 mm, 4 mm), turned by 90 degrees, is the same after \<^verbatim>\<open>parse\<close>; its
  box is measured at the origin.
\<close>
theorem source_board_unchanged_witness:
  "heap (snd (parse ex_env (ex_parser (ex_config [] '''') [ex_item Edge_Cuts S_SEGMENT])
            (ex_state [''1'']))) 0 = ex_footprint [''1''] \<and>
   heap (snd (parse_footprint ex_env (ex_config [] '''') 0 (ex_state [''1'']))) 0 = ex_footprint [''1''] \<and>
   fd_bbox (fst (parse_footprint ex_env (ex_config [] '''') 0 (ex_state [''1'']))) =
     \<lparr>bb_pos = (3, 4), bb_relpos = (0, 0), bb_size = (2, 1), bb_angle = 90\<rparr>"
proof -
  let ?p = "ex_parser (ex_config [] '''') [ex_item Edge_Cuts S_SEGMENT]"
  let ?s = "ex_state [''1'']"
  have h: "(0::nat) < next_free ?s" "(0::nat) \<noteq> next_free ?s" by (simp_all add: ex_state_def)
  have hp: "heap ?s 0 = ex_footprint [''1'']" by (simp add: ex_state_def)
  from source_board_unchanged[of ?s ex_env ?p "ex_config [] ''''" 0] h hp
  show ?thesis
    by (simp add: footprint_rect_def ex_env_def ex_footprint_def normalize_def)
qed

end
